(* ===== verification/Prelude.thy ===== *)
theory Prelude
  imports Main "HOL-Library.Multiset" "HOL-Library.Sublist"
begin

text \<open>
  Shared vocabulary of the development: the collections of unfolding rules for the
  models of Python built-ins, and the generic facts on lists, sums and options that
  the component theories use. A Python \<open>str\<close> whose code points all lie in
  0..255 is a HOL \<open>string\<close> (one \<open>char\<close> per code point); a Python \<open>list\<close> is
  a HOL list; an exception is the \<open>Inl\<close> side of a sum.
\<close>

named_theorems py_builtin_defs
  "unfolding rules of the definitions that model Python built-ins"
named_theorems handler_defs
  "unfolding rules of the conversation handlers"

type_synonym py_str = string

subsection \<open>Maximal runs of a predicate\<close>

text \<open>
  A list that starts with a run of \<open>P\<close>-elements followed by nothing or by an element
  outside \<open>P\<close> is split by \<open>takeWhile\<close>/\<open>dropWhile\<close> exactly there.
\<close>

lemma takeWhile_maximal_run:
  assumes "\<forall>c\<in>set w. P c" and "r = [] \<or> \<not> P (hd r)"
  shows "takeWhile P (w @ r) = w"
  using assms by (induction w) (cases r; auto)+

lemma dropWhile_maximal_run:
  assumes "\<forall>c\<in>set w. P c" and "r = [] \<or> \<not> P (hd r)"
  shows "dropWhile P (w @ r) = r"
  using assms by (induction w) (cases r; auto)+

lemma dropWhile_stops:
  "dropWhile P xs = [] \<or> \<not> P (hd (dropWhile P xs))"
  by (induction xs) auto

lemma takeWhile_all: "\<forall>c\<in>set (takeWhile P xs). P c"
  by (induction xs) auto

lemma append_prefix_cases:
  assumes "t @ d = a @ m"
  obtains us where "t = a @ us" "us @ d = m"
        | us where "a = t @ us" "d = us @ m"
  using assms by (auto simp: append_eq_append_conv2)

subsection \<open>Characters as code points\<close>

lemma of_char_less_256: "(of_char c :: nat) < 256"
  by (metis of_char_mod_256 mod_less_divisor zero_less_numeral)

lemma char_of_eq_iff_of_char: "char_of n = c \<longleftrightarrow> n mod 256 = (of_char c :: nat)"
  by (metis of_char_eq_iff of_char_of)

subsection \<open>Permutations and filters\<close>

end
