(* ===== verification/Text.thy ===== *)
theory Text
  imports Prelude
begin

text \<open>
  The text primitives that \<open>src/teleBot.py\<close> applies to page text and keywords:
  \<open>str.lower\<close> (lines 39 and 41), the word tokenizer
  \<open>re.findall(r'\b\w+\b', text)\<close> (line 40), \<open>str.join\<close> (line 108) and
  \<open>str.strip\<close> (called by BeautifulSoup's \<open>get_text(strip=True)\<close>).
  Characters are the code points 0..255 of a Python \<open>str\<close> (Latin-1); the
  character classes below are Python 3's on that range: \<open>\w\<close> is
  \<open>str.isalnum()\<close> or underscore, \<open>str.lower\<close> maps A..Z and the Latin-1
  capitals 0xC0..0xDE (not 0xD7) up by 32, \<open>str.isspace\<close> holds for 9..13,
  28..32, 0x85 and 0xA0.
\<close>

subsection \<open>Character classes\<close>

definition py_is_word_char :: "char \<Rightarrow> bool" where
  "py_is_word_char c \<longleftrightarrow>
     (let n = (of_char c :: nat) in
        (48 \<le> n \<and> n \<le> 57) \<or> (65 \<le> n \<and> n \<le> 90) \<or> n = 95 \<or> (97 \<le> n \<and> n \<le> 122)
      \<or> n = 170 \<or> n = 178 \<or> n = 179 \<or> n = 181 \<or> n = 185 \<or> n = 186
      \<or> (188 \<le> n \<and> n \<le> 190) \<or> (192 \<le> n \<and> n \<noteq> 215 \<and> n \<noteq> 247))"

definition py_lower_char :: "char \<Rightarrow> char" where
  "py_lower_char c =
     (let n = (of_char c :: nat) in
        if (65 \<le> n \<and> n \<le> 90) \<or> (192 \<le> n \<and> n \<le> 222 \<and> n \<noteq> 215)
        then char_of (n + 32) else c)"

definition py_lower :: "py_str \<Rightarrow> py_str" where
  "py_lower s = map py_lower_char s"

definition py_is_space :: "char \<Rightarrow> bool" where
  "py_is_space c \<longleftrightarrow>
     (let n = (of_char c :: nat) in (9 \<le> n \<and> n \<le> 13) \<or> (28 \<le> n \<and> n \<le> 32) \<or> n = 133 \<or> n = 160)"

definition py_strip :: "py_str \<Rightarrow> py_str" where
  "py_strip s = rev (dropWhile py_is_space (rev (dropWhile py_is_space s)))"

fun py_str_join :: "py_str \<Rightarrow> py_str list \<Rightarrow> py_str" where
  "py_str_join sep [] = []"
| "py_str_join sep [x] = x"
| "py_str_join sep (x # y # zs) = x @ sep @ py_str_join sep (y # zs)"

definition py_startswith :: "py_str \<Rightarrow> py_str \<Rightarrow> bool" where
  "py_startswith s pre \<longleftrightarrow> take (length pre) s = pre"

text \<open>
  \<open>str.split(sep)\<close> with a non-empty separator: the pieces between the
  non-overlapping occurrences of \<open>sep\<close>, left to right (an empty separator raises
  \<open>ValueError\<close> in Python and is not used here).
\<close>

function py_split_sep :: "py_str \<Rightarrow> py_str \<Rightarrow> py_str list" where
  "py_split_sep sep s =
     (if sep = [] \<or> s = [] then [s]
      else if py_startswith s sep then [] # py_split_sep sep (drop (length sep) s)
      else (case py_split_sep sep (tl s) of
              p # ps \<Rightarrow> (hd s # p) # ps
            | [] \<Rightarrow> [[hd s]]))"
  by pat_completeness auto
termination
  by (relation "measure (\<lambda>(sep, s). length s)") auto

declare py_split_sep.simps [simp del]

declare py_lower_def [py_builtin_defs] py_strip_def [py_builtin_defs]

subsection \<open>The regular-expression scan \<open>re.findall(r'\b\w+\b', s)\<close>\<close>

text \<open>
  \<open>re.findall\<close> tries the pattern at each position from left to right and resumes
  after the end of each match. At a position the pattern \<open>\b\w+\b\<close> matches iff the
  character there is a word character and the one before is not (or there is none);
  \<open>\w+\<close> is greedy, so the match is the whole run of word characters, after which
  the closing \<open>\b\<close> holds. The flag \<open>after_word\<close> says whether the character
  before the current position is a word character.
\<close>

function re_findall_words :: "bool \<Rightarrow> py_str \<Rightarrow> py_str list" where
  "re_findall_words after_word [] = []"
| "re_findall_words after_word (c # cs) =
     (if py_is_word_char c \<and> \<not> after_word
      then takeWhile py_is_word_char (c # cs)
           # re_findall_words True (dropWhile py_is_word_char (c # cs))
      else re_findall_words (py_is_word_char c) cs)"
  by pat_completeness auto
termination
  by (relation "measure (\<lambda>(b, s). length s)") (auto simp: le_imp_less_Suc length_dropWhile_le)

definition findall_words :: "py_str \<Rightarrow> py_str list" where
  "findall_words s = re_findall_words False s"

definition is_word_token :: "py_str \<Rightarrow> bool" where
  "is_word_token w \<longleftrightarrow> w \<noteq> [] \<and> list_all py_is_word_char w"


subsection \<open>The scan yields exactly the maximal runs of word characters\<close>

lemma re_findall_words_boundary:
  "r = [] \<or> \<not> py_is_word_char (hd r) \<Longrightarrow> re_findall_words b r = re_findall_words False r"
  by (cases r) auto

lemma re_findall_words_run:
  assumes "is_word_token w" and "r = [] \<or> \<not> py_is_word_char (hd r)"
  shows "re_findall_words False (w @ r) = w # re_findall_words False r"
proof -
  obtain c w' where w: "w = c # w'" using assms(1) by (cases w) (auto simp: is_word_token_def)
  have all: "\<forall>x\<in>set w. py_is_word_char x" using assms(1) by (simp add: is_word_token_def list_all_iff)
  then have "py_is_word_char c" by (simp add: w)
  then have "re_findall_words False (w @ r) =
      takeWhile py_is_word_char (w @ r) # re_findall_words True (dropWhile py_is_word_char (w @ r))"
    by (simp add: w)
  also have "\<dots> = w # re_findall_words True r"
    by (simp only: takeWhile_maximal_run[OF all assms(2)] dropWhile_maximal_run[OF all assms(2)])
  finally show ?thesis using assms(2) re_findall_words_boundary by metis
qed

lemma re_findall_words_iff:
  "w \<in> set (re_findall_words b s) \<longleftrightarrow>
     is_word_token w \<and>
     (\<exists>a r. s = a @ w @ r \<and> (if a = [] then \<not> b else \<not> py_is_word_char (last a))
            \<and> (r = [] \<or> \<not> py_is_word_char (hd r)))"
proof (induction b s rule: re_findall_words.induct)
  case (1 b)
  show ?case by (auto simp: is_word_token_def)
next
  case (2 b c cs)
  show ?case
  proof (cases "py_is_word_char c \<and> \<not> b")
    case True
    define t where "t = takeWhile py_is_word_char (c # cs)"
    define d where "d = dropWhile py_is_word_char (c # cs)"
    have split: "c # cs = t @ d" by (simp add: t_def d_def)
    have t_all: "\<forall>x\<in>set t. py_is_word_char x" unfolding t_def by (rule takeWhile_all)
    have "t \<noteq> []" using True by (simp add: t_def)
    then have t_tok: "is_word_token t" using t_all by (simp add: is_word_token_def list_all_iff)
    have d_stop: "d = [] \<or> \<not> py_is_word_char (hd d)" by (simp only: d_def dropWhile_stops)
    have res: "re_findall_words b (c # cs) = t # re_findall_words True d"
      using True unfolding t_def d_def by (subst re_findall_words.simps(2)) simp
    note IH = "2.IH"(1)[OF True, folded d_def]
    show ?thesis
    proof
      assume "w \<in> set (re_findall_words b (c # cs))"
      then have "w = t \<or> w \<in> set (re_findall_words True d)" unfolding res by simp
      then show "is_word_token w \<and> (\<exists>a r. c # cs = a @ w @ r \<and>
          (if a = [] then \<not> b else \<not> py_is_word_char (last a)) \<and> (r = [] \<or> \<not> py_is_word_char (hd r)))"
      proof
        assume "w = t"
        then show ?thesis using t_tok split d_stop True
          by (intro conjI exI[of _ "[]"] exI[of _ d]) simp_all
      next
        assume "w \<in> set (re_findall_words True d)"
        then obtain a r where "is_word_token w" "d = a @ w @ r" "a \<noteq> []"
            "\<not> py_is_word_char (last a)" "r = [] \<or> \<not> py_is_word_char (hd r)"
          using IH by (auto split: if_splits)
        then show ?thesis using split
          by (intro conjI exI[of _ "t @ a"] exI[of _ r]) simp_all
      qed
    next
      assume "is_word_token w \<and> (\<exists>a r. c # cs = a @ w @ r \<and>
          (if a = [] then \<not> b else \<not> py_is_word_char (last a)) \<and> (r = [] \<or> \<not> py_is_word_char (hd r)))"
      then obtain a r where tok: "is_word_token w" and eq: "c # cs = a @ w @ r"
          and bnd: "if a = [] then \<not> b else \<not> py_is_word_char (last a)"
          and stop: "r = [] \<or> \<not> py_is_word_char (hd r)" by blast
      show "w \<in> set (re_findall_words b (c # cs))"
      proof (cases "a = []")
        case True
        have "\<forall>x\<in>set w. py_is_word_char x" using tok by (simp add: is_word_token_def list_all_iff)
        then have "takeWhile py_is_word_char (w @ r) = w" using stop by (rule takeWhile_maximal_run)
        then have "t = w" using eq True by (simp only: t_def append_Nil)
        then show ?thesis unfolding res by simp
      next
        case False
        from split eq have "t @ d = a @ (w @ r)" by simp
        then show ?thesis
        proof (cases rule: append_prefix_cases)
          case (1 us)
          then have "last a \<in> set t" using False by simp
          then show ?thesis using t_all bnd False by auto
        next
          case (2 us)
          have "us \<noteq> []"
          proof
            assume "us = []"
            then have "last a \<in> set t" using 2 False by simp
            then show False using t_all bnd False by auto
          qed
          then have "last a = last us" using 2 by simp
          then have "w \<in> set (re_findall_words True d)"
            using IH tok 2 stop bnd False \<open>us \<noteq> []\<close> by auto
          then show ?thesis unfolding res by simp
        qed
      qed
    qed

  next
    case False
    have res: "re_findall_words b (c # cs) = re_findall_words (py_is_word_char c) cs"
      by (simp only: re_findall_words.simps(2) if_not_P[OF False])
    note IH = "2.IH"(2)[OF False]
    show ?thesis
    proof
      assume "w \<in> set (re_findall_words b (c # cs))"
      then obtain a r where "is_word_token w" "cs = a @ w @ r"
          "if a = [] then \<not> py_is_word_char c else \<not> py_is_word_char (last a)"
          "r = [] \<or> \<not> py_is_word_char (hd r)"
        using IH unfolding res by blast
      then show "is_word_token w \<and> (\<exists>a r. c # cs = a @ w @ r \<and>
          (if a = [] then \<not> b else \<not> py_is_word_char (last a)) \<and> (r = [] \<or> \<not> py_is_word_char (hd r)))"
        by (intro conjI exI[of _ "c # a"] exI[of _ r]) (simp_all split: if_splits)
    next
      assume "is_word_token w \<and> (\<exists>a r. c # cs = a @ w @ r \<and>
          (if a = [] then \<not> b else \<not> py_is_word_char (last a)) \<and> (r = [] \<or> \<not> py_is_word_char (hd r)))"
      then obtain a r where tok: "is_word_token w" and eq: "c # cs = a @ w @ r"
          and bnd: "if a = [] then \<not> b else \<not> py_is_word_char (last a)"
          and stop: "r = [] \<or> \<not> py_is_word_char (hd r)" by blast
      show "w \<in> set (re_findall_words b (c # cs))"
      proof (cases a)
        case Nil
        with eq tok have "py_is_word_char c" by (cases w) (auto simp: is_word_token_def)
        with bnd Nil False show ?thesis by simp
      next
        case (Cons c' a')
        with eq have cs: "cs = a' @ w @ r" by simp
        from bnd Cons eq have "if a' = [] then \<not> py_is_word_char c else \<not> py_is_word_char (last a')"
          by (simp split: if_splits)
        then have "w \<in> set (re_findall_words (py_is_word_char c) cs)"
          using IH tok cs stop by blast
        then show ?thesis unfolding res .
      qed
    qed
  qed
qed

lemma findall_words_iff:
  "w \<in> set (findall_words s) \<longleftrightarrow>
     is_word_token w \<and>
     (\<exists>a r. s = a @ w @ r \<and> (a = [] \<or> \<not> py_is_word_char (last a))
            \<and> (r = [] \<or> \<not> py_is_word_char (hd r)))"
  unfolding findall_words_def re_findall_words_iff by (auto split: if_splits)

lemma py_lower_char_word: "py_is_word_char (py_lower_char c) = py_is_word_char c"
proof -
  have "(of_char c :: nat) < 256" by (rule of_char_less_256)
  then show ?thesis
    unfolding py_lower_char_def py_is_word_char_def Let_def
    by (auto simp: of_char_of)
qed

lemma re_findall_words_map:
  assumes "\<And>c. py_is_word_char (f c) = py_is_word_char c"
  shows "re_findall_words b (map f s) = map (map f) (re_findall_words b s)"
proof (induction b s rule: re_findall_words.induct)
  case (1 b)
  show ?case by simp
next
  case (2 b c cs)
  have P: "py_is_word_char \<circ> f = py_is_word_char" by (simp add: assms fun_eq_iff)
  show ?case using 2 by (simp add: assms takeWhile_map dropWhile_map P)
qed

lemma findall_words_py_lower:
  "findall_words (py_lower s) = map py_lower (findall_words s)"
  by (simp add: findall_words_def py_lower_def re_findall_words_map py_lower_char_word)

lemma re_findall_words_skip:
  "\<forall>c\<in>set u. \<not> py_is_word_char c \<Longrightarrow> u \<noteq> [] \<Longrightarrow> re_findall_words b (u @ s) = re_findall_words False s"
proof (induction u arbitrary: b)
  case Nil
  then show ?case by simp
next
  case (Cons c u)
  then show ?case by (cases u) simp_all
qed

text \<open>C16: 
  Round trip: joining non-empty runs of word characters with a non-empty separator made of non-word characters (such as the single space of \<open>get_text(separator=" ")\<close>) and tokenizing the result gives the runs back.
\<close>

theorem findall_words_join:
  "sep \<noteq> [] \<Longrightarrow> \<forall>c\<in>set sep. \<not> py_is_word_char c \<Longrightarrow> list_all is_word_token ws \<Longrightarrow>
   findall_words (py_str_join sep ws) = ws"
proof (induction sep ws rule: py_str_join.induct)
  case (1 sep)
  show ?case by (simp add: findall_words_def)
next
  case (2 sep x)
  then show ?case using re_findall_words_run[of x "[]"] by (simp add: findall_words_def)
next
  case (3 sep x y zs)
  have hd: "sep @ py_str_join sep (y # zs) = [] \<or> \<not> py_is_word_char (hd (sep @ py_str_join sep (y # zs)))"
    using "3.prems"(1,2) by (cases sep) auto
  have "findall_words (py_str_join sep (x # y # zs))
      = x # re_findall_words False (sep @ py_str_join sep (y # zs))"
    using "3.prems"(3) hd re_findall_words_run by (simp add: findall_words_def)
  also have "\<dots> = x # findall_words (py_str_join sep (y # zs))"
    using "3.prems"(1,2) by (simp add: re_findall_words_skip findall_words_def)
  finally show ?case using 3 by simp
qed

text \<open>C17: 
  Bound: a text of n characters has at most (n + 1) div 2 word tokens, since every token
  takes at least one character and consecutive tokens are separated by at least one.
\<close>

theorem findall_words_count_bound: "2 * length (findall_words s) \<le> length s + 1"
proof -
  have "2 * length (re_findall_words b s) \<le> length s + (if b then 0 else 1)" for b
  proof (induction b s rule: re_findall_words.induct)
    case (1 b)
    show ?case by simp
  next
    case (2 b c cs)
    show ?case
    proof (cases "py_is_word_char c \<and> \<not> b")
      case True
      define t where "t = takeWhile py_is_word_char (c # cs)"
      define d where "d = dropWhile py_is_word_char (c # cs)"
      have res: "re_findall_words b (c # cs) = t # re_findall_words True d"
        using True unfolding t_def d_def by (subst re_findall_words.simps(2)) simp
      have len: "length t + length d = Suc (length cs)"
        unfolding t_def d_def by (metis length_append length_Cons takeWhile_dropWhile_id)
      have "t \<noteq> []" using True by (simp add: t_def)
      then have "1 \<le> length t" by (cases t) simp_all
      then show ?thesis using True len "2.IH"(1)[OF True, folded d_def] unfolding res by simp
    next
      case False
      then show ?thesis using "2.IH"(2)[OF False]
        by (simp only: re_findall_words.simps(2) if_not_P[OF False]) (auto split: if_splits)
    qed
  qed
  from this[of False] show ?thesis by (simp add: findall_words_def)
qed

subsection \<open>Tokens of joined and stripped text\<close>

lemma re_findall_words_split:
  "\<not> py_is_word_char c \<Longrightarrow> re_findall_words f (a @ c # b) = re_findall_words f a @ re_findall_words False b"
proof (induction f a rule: re_findall_words.induct)
  case (1 f)
  then show ?case by simp
next
  case (2 f x xs)
  show ?case
  proof (cases "py_is_word_char x \<and> \<not> f")
    case True
    have tw: "takeWhile py_is_word_char (x # xs @ c # b) = takeWhile py_is_word_char (x # xs)"
      using "2.prems" by (induction xs arbitrary: x) auto
    have dw: "dropWhile py_is_word_char (x # xs @ c # b) = dropWhile py_is_word_char (x # xs) @ c # b"
      using "2.prems" by (induction xs arbitrary: x) auto
    show ?thesis using True "2.IH"(1)[OF True "2.prems"]
      by (simp only: append_Cons re_findall_words.simps(2) if_P tw dw) simp
  next
    case False
    show ?thesis using False "2.IH"(2)[OF False "2.prems"]
      by (simp only: append_Cons re_findall_words.simps(2) if_not_P) simp
  qed
qed

lemma re_findall_words_nonword_only:
  "\<forall>c\<in>set s. \<not> py_is_word_char c \<Longrightarrow> re_findall_words f s = []"
  by (induction s arbitrary: f) auto

lemma findall_words_sep:
  "sep \<noteq> [] \<Longrightarrow> \<forall>c\<in>set sep. \<not> py_is_word_char c \<Longrightarrow>
   findall_words (a @ sep @ b) = findall_words a @ findall_words b"
proof -
  assume ne: "sep \<noteq> []" and nw: "\<forall>c\<in>set sep. \<not> py_is_word_char c"
  then obtain c sep' where sep: "sep = c # sep'" by (cases sep) auto
  with nw have "re_findall_words False (a @ c # sep' @ b) = re_findall_words False a @ re_findall_words False (sep' @ b)"
    by (simp add: re_findall_words_split)
  moreover have "re_findall_words False (sep' @ b) = re_findall_words False b"
  proof -
    have "\<forall>x\<in>set sep'. \<not> py_is_word_char x" using nw sep by simp
    then show ?thesis by (cases "sep' = []") (simp_all add: re_findall_words_skip)
  qed
  ultimately show ?thesis by (simp add: findall_words_def sep)
qed

lemma findall_words_Nil [simp]: "findall_words [] = []"
  by (simp add: findall_words_def)

lemma concat_findall_words_nonempty:
  "concat (map findall_words (filter (\<lambda>s. s \<noteq> []) xs)) = concat (map findall_words xs)"
  by (induction xs) auto

lemma findall_words_join_concat:
  "sep \<noteq> [] \<Longrightarrow> \<forall>c\<in>set sep. \<not> py_is_word_char c \<Longrightarrow>
   findall_words (py_str_join sep xs) = concat (map findall_words xs)"
  by (induction sep xs rule: py_str_join.induct) (simp_all add: findall_words_sep findall_words_Nil)

lemma py_is_space_nonword: "py_is_space c \<Longrightarrow> \<not> py_is_word_char c"
  by (auto simp: py_is_space_def py_is_word_char_def Let_def)

lemma findall_words_dropWhile_space:
  "findall_words (dropWhile py_is_space s) = findall_words s"
proof -
  let ?u = "takeWhile py_is_space s"
  have s: "s = ?u @ dropWhile py_is_space s" by simp
  have nw: "\<forall>c\<in>set ?u. \<not> py_is_word_char c"
    using takeWhile_all[of py_is_space s] py_is_space_nonword by blast
  show ?thesis
  proof (cases "?u = []")
    case True
    then show ?thesis by (metis s append_Nil)
  next
    case False
    then show ?thesis using nw s re_findall_words_skip findall_words_def by metis
  qed
qed

lemma findall_words_rstrip:
  "findall_words (rev (dropWhile py_is_space (rev s))) = findall_words s"
proof -
  let ?core = "rev (dropWhile py_is_space (rev s))"
  let ?v = "rev (takeWhile py_is_space (rev s))"
  have s: "s = ?core @ ?v" by (metis rev_append rev_rev_ident takeWhile_dropWhile_id)
  have nw: "\<forall>c\<in>set ?v. \<not> py_is_word_char c"
    using takeWhile_all[of py_is_space "rev s"] py_is_space_nonword by auto
  show ?thesis
  proof (cases ?v)
    case Nil
    then show ?thesis by (metis s append_Nil2)
  next
    case (Cons c v')
    then have "findall_words s = findall_words ?core @ re_findall_words False v'"
      using nw s re_findall_words_split findall_words_def by (metis list.set_intros(1))
    moreover have "re_findall_words False v' = []"
      using nw Cons by (simp add: re_findall_words_nonword_only)
    ultimately show ?thesis by simp
  qed
qed

lemma findall_words_py_strip: "findall_words (py_strip s) = findall_words s"
  by (simp add: py_strip_def findall_words_rstrip findall_words_dropWhile_space)

theorem findall_words_join_witness:
  "findall_words (py_str_join '' '' [''seo'', ''marketing'']) = [''seo'', ''marketing'']"
  by (rule findall_words_join) (simp_all add: is_word_token_def py_is_word_char_def)

subsection \<open>Splitting a joined list\<close>

lemma py_split_sep_Cons:
  "CHR '','' \<noteq> c \<Longrightarrow> py_split_sep '', '' (c # s) =
     (case py_split_sep '', '' s of p # ps \<Rightarrow> (c # p) # ps | [] \<Rightarrow> [[c]])"
  by (subst py_split_sep.simps) (simp add: py_startswith_def split: list.splits)

lemma py_split_sep_no_comma:
  "CHR '','' \<notin> set s \<Longrightarrow> py_split_sep '', '' s = [s]"
proof (induction s)
  case Nil
  then show ?case by (simp add: py_split_sep.simps)
next
  case (Cons c s)
  then show ?case by (simp add: py_split_sep_Cons)
qed

lemma py_split_sep_piece:
  "CHR '','' \<notin> set x \<Longrightarrow> py_split_sep '', '' (x @ CHR '','' # CHR '' '' # r) = x # py_split_sep '', '' r"
proof (induction x)
  case Nil
  then show ?case by (subst py_split_sep.simps) (simp add: py_startswith_def)
next
  case (Cons c x)
  then show ?case by (simp add: py_split_sep_Cons)
qed

lemma py_split_sep_join:
  "xs \<noteq> [] \<Longrightarrow> \<forall>x\<in>set xs. CHR '','' \<notin> set x \<Longrightarrow> py_split_sep '', '' (py_str_join '', '' xs) = xs"
  by (induction "'', ''" xs rule: py_str_join.induct) (simp_all add: py_split_sep_no_comma py_split_sep_piece)

end
