(* ===== verification/Soup.thy ===== *)
theory Soup
  imports Text
begin

text \<open>
  The two libraries \<open>fetch_keywords_from_url\<close> (\<open>src/teleBot.py\<close> lines 31-44)
  calls, modelled from their documented behaviour since their code is not part of the
  repository:
  \<^item> \<open>requests\<close>: a response has a status code and a body; \<open>raise_for_status()\<close>
    raises \<open>HTTPError\<close> for the status codes 400..599 and for nothing else; the
    request itself (\<open>requests.get\<close>, \<open>requests_get\<close> below) raises
    \<open>MissingSchema\<close>, \<open>InvalidURL\<close> or \<open>InvalidSchema\<close> for URLs it cannot
    send, and the network a \<open>RequestException\<close> (connection failure, timeout).
  \<^item> BeautifulSoup: the parsed document is a tree of text nodes, comments and
    elements; \<open>get_text(separator, strip=True)\<close> takes the strings of the text nodes
    in document order (not comments, and not the contents of \<open>script\<close>, \<open>style\<close>
    and \<open>template\<close> elements), strips each with \<open>str.strip\<close>, drops the empty
    ones and joins the rest with the separator. Parsing the body bytes into the tree is
    not modelled: a response carries its parsed document.
\<close>

datatype html_node =
    Text_node py_str
  | Comment_node py_str
  | Element py_str "html_node list"

record response =
  status_code :: int
  content :: "html_node list"

datatype request_error = RequestException | HTTPError int | MissingSchema | InvalidSchema | InvalidURL

type_synonym py_headers = "(py_str \<times> py_str) list"

text \<open>
  What \<open>requests.get(url, headers=h)\<close> does before it opens a connection
  (\<open>PreparedRequest.prepare_url\<close> and \<open>Session.get_adapter\<close>): it strips leading
  whitespace; a URL with a colon that does not start with http (any case) is passed on
  unprepared; otherwise urllib3's \<open>parse_url\<close> splits off the scheme (letters,
  digits, \<open>+ . -\<close> after a letter, up to the first colon) and the host (the
  authority after \<open>//\<close> up to \<open>/ ? #\<close>, without user info and port); no scheme
  raises \<open>MissingSchema\<close>, no host \<open>InvalidURL\<close>; finally only URLs starting
  with http:// or https:// (any case) have a transport adapter, others raise
  \<open>InvalidSchema\<close>. The network itself is the parameter \<open>transport\<close>, which
  returns a response or raises. IPv6 literals and percent-encoding are not modelled.
\<close>

definition url_scheme_char :: "char \<Rightarrow> bool" where
  "url_scheme_char c \<longleftrightarrow>
     (let n = (of_char c :: nat) in
        (48 \<le> n \<and> n \<le> 57) \<or> (65 \<le> n \<and> n \<le> 90) \<or> (97 \<le> n \<and> n \<le> 122) \<or> n = 43 \<or> n = 45 \<or> n = 46)"

definition url_split_scheme :: "py_str \<Rightarrow> (py_str \<times> py_str) option" where
  "url_split_scheme url =
     (let scheme = takeWhile url_scheme_char url; rest = dropWhile url_scheme_char url
      in if scheme \<noteq> [] \<and> \<not> (let n = (of_char (hd scheme) :: nat) in 48 \<le> n \<and> n \<le> 57 \<or> n = 43 \<or> n = 45 \<or> n = 46)
            \<and> rest \<noteq> [] \<and> hd rest = CHR '':''
         then Some (scheme, tl rest) else None)"

definition url_host :: "py_str \<Rightarrow> py_str" where
  "url_host rest =
     (if take 2 rest = ''//''
      then (let authority = takeWhile (\<lambda>c. c \<notin> set ''/?#'') (drop 2 rest);
                host_port = rev (takeWhile (\<lambda>c. c \<noteq> CHR ''@'') (rev authority))
            in takeWhile (\<lambda>c. c \<noteq> CHR '':'') host_port)
      else [])"

definition requests_get ::
  "(py_str \<Rightarrow> py_headers \<Rightarrow> request_error + response) \<Rightarrow> py_str \<Rightarrow> py_headers \<Rightarrow> request_error + response" where
  "requests_get transport url0 headers =
     (let url = dropWhile py_is_space url0;
          adapter = py_startswith (py_lower url) ''http://'' \<or> py_startswith (py_lower url) ''https://''
      in if CHR '':'' \<in> set url \<and> \<not> py_startswith (py_lower url) ''http'' then Inl InvalidSchema
         else (case url_split_scheme url of
                 None \<Rightarrow> Inl MissingSchema
               | Some (scheme, rest) \<Rightarrow>
                   if url_host rest = [] then Inl InvalidURL
                   else if \<not> adapter then Inl InvalidSchema
                   else transport url headers))"

definition raise_for_status :: "response \<Rightarrow> request_error + unit" where
  "raise_for_status r =
     (if 400 \<le> status_code r \<and> status_code r < 600 then Inl (HTTPError (status_code r))
      else Inr ())"

definition non_text_element :: "py_str \<Rightarrow> bool" where
  "non_text_element tag \<longleftrightarrow> tag \<in> {''script'', ''style'', ''template''}"

fun node_strings :: "html_node \<Rightarrow> py_str list"
  and nodes_strings :: "html_node list \<Rightarrow> py_str list" where
  "node_strings (Text_node s) = [s]"
| "node_strings (Comment_node s) = []"
| "node_strings (Element tag children) =
     (if non_text_element tag then [] else nodes_strings children)"
| "nodes_strings [] = []"
| "nodes_strings (n # ns) = node_strings n @ nodes_strings ns"

definition soup_get_text :: "py_str \<Rightarrow> html_node list \<Rightarrow> py_str" where
  "soup_get_text separator doc =
     py_str_join separator (filter (\<lambda>s. s \<noteq> []) (map py_strip (nodes_strings doc)))"

lemma raise_for_status_ok_iff:
  "raise_for_status r = Inr () \<longleftrightarrow> \<not> (400 \<le> status_code r \<and> status_code r < 600)"
  by (simp add: raise_for_status_def)

text \<open>
  The tokens of \<open>get_text(" ", strip=True)\<close> are the tokens of the text nodes one after
  the other: the separator and the stripped whitespace are not word characters.
\<close>

lemma findall_words_soup_get_text:
  "findall_words (soup_get_text '' '' doc) = concat (map findall_words (nodes_strings doc))"
proof -
  have "findall_words (soup_get_text '' '' doc)
      = concat (map findall_words (filter (\<lambda>s. s \<noteq> []) (map py_strip (nodes_strings doc))))"
    unfolding soup_get_text_def by (rule findall_words_join_concat) (simp_all add: py_is_word_char_def)
  also have "\<dots> = concat (map findall_words (map py_strip (nodes_strings doc)))"
    by (rule concat_findall_words_nonempty)
  also have "\<dots> = concat (map findall_words (nodes_strings doc))"
    by (simp add: comp_def findall_words_py_strip)
  finally show ?thesis .
qed

lemmas requests_eval = requests_get_def url_split_scheme_def url_scheme_char_def url_host_def
  py_startswith_def py_lower_def py_lower_char_def py_is_space_def

text \<open>Requests to URLs the adapters do not serve never reach the network.\<close>

lemma py_startswith_http_lower:
  "py_startswith url ''http'' \<Longrightarrow> py_startswith (py_lower url) ''http''"
proof -
  assume "py_startswith url ''http''"
  then have "take 4 url = ''http''" by (simp add: py_startswith_def eval_nat_numeral)
  then have "take 4 (py_lower url) = py_lower ''http''" by (metis py_lower_def take_map)
  then show ?thesis by (simp add: py_startswith_def py_lower_def py_lower_char_def eval_nat_numeral)
qed

lemma py_startswith_http_unstripped:
  "py_startswith url ''http'' \<Longrightarrow> dropWhile py_is_space url = url"
  by (cases url) (auto simp: py_startswith_def py_is_space_def)

lemma requests_get_no_adapter:
  "py_startswith url ''http'' \<Longrightarrow>
   \<not> (py_startswith (py_lower url) ''http://'' \<or> py_startswith (py_lower url) ''https://'') \<Longrightarrow>
   requests_get transport url headers \<in> {Inl MissingSchema, Inl InvalidURL, Inl InvalidSchema}"
  by (simp add: requests_get_def py_startswith_http_unstripped py_startswith_http_lower Let_def
      split: option.splits)

lemma requests_get_headers:
  "(\<forall>u. transport u h = transport' u h) \<Longrightarrow>
   requests_get transport url h = requests_get transport' url h"
  by (simp add: requests_get_def Let_def split: option.splits)

end
