(* ===== verification/Logging.thy ===== *)
theory Logging
  imports Text
begin

text \<open>
  The logging set up in lines 9-13 of \<open>src/teleBot.py\<close> and used by the one
  \<open>logger.error\<close> call (line 43). \<open>logging.basicConfig\<close> installs on the root
  logger a stream handler on standard error with the format
  \<open>'%(asctime)s - %(name)s - %(levelname)s - %(message)s'\<close> and the level INFO;
  \<open>logging.getLogger(__name__)\<close> is the logger \<open>__main__\<close> when the file runs as
  a script (line 137), whose effective level is the root's. The library side, modelled
  from the \<open>logging\<close> documentation:
  \<^item> \<open>log_level\<close> and its numbers 10..50, \<open>isEnabledFor\<close> as a comparison of
    numbers;
  \<^item> a \<open>LogRecord\<close> as the record of the four attributes the format names
    (\<open>record_attr\<close>; any other key is a \<open>KeyError\<close>, \<open>None\<close>);
  \<^item> \<open>Formatter.format\<close> as Python's \<open>%\<close> operator on a mapping
    (\<open>percent_format\<close>): \<open>%(key)s\<close> inserts the value of the key verbatim,
    \<open>%%\<close> is a percent sign, an incomplete directive is a \<open>ValueError\<close>
    (\<open>None\<close>); flags, widths and conversions other than \<open>s\<close> are not used by
    this format and are treated as errors;
  \<^item> \<open>StreamHandler.emit\<close> writes the formatted line and the terminator, a
    newline; a formatting error is reported by \<open>handleError\<close>, of whose output
    only the first line is modelled.
  The record's creation time is a parameter: the clock is not modelled.
\<close>

datatype log_level = DEBUG | INFO | WARNING | ERROR | CRITICAL

primrec level_no :: "log_level \<Rightarrow> nat" where
  "level_no DEBUG = 10"
| "level_no INFO = 20"
| "level_no WARNING = 30"
| "level_no ERROR = 40"
| "level_no CRITICAL = 50"

primrec level_name :: "log_level \<Rightarrow> py_str" where
  "level_name DEBUG = ''DEBUG''"
| "level_name INFO = ''INFO''"
| "level_name WARNING = ''WARNING''"
| "level_name ERROR = ''ERROR''"
| "level_name CRITICAL = ''CRITICAL''"

record log_record =
  rec_asctime :: py_str
  rec_name :: py_str
  rec_levelname :: py_str
  rec_message :: py_str

definition record_attr :: "log_record \<Rightarrow> py_str \<Rightarrow> py_str option" where
  "record_attr r key =
     (if key = ''asctime'' then Some (rec_asctime r)
      else if key = ''name'' then Some (rec_name r)
      else if key = ''levelname'' then Some (rec_levelname r)
      else if key = ''message'' then Some (rec_message r)
      else None)"

function percent_format :: "(py_str \<Rightarrow> py_str option) \<Rightarrow> py_str \<Rightarrow> py_str option" where
  "percent_format vals [] = Some []"
| "percent_format vals (c # cs) =
     (if c \<noteq> CHR ''%'' then map_option (Cons c) (percent_format vals cs)
      else case cs of
        [] \<Rightarrow> None
      | d # ds \<Rightarrow>
          if d = CHR ''%'' then map_option (Cons CHR ''%'') (percent_format vals ds)
          else if d \<noteq> CHR ''('' then None
          else
            (case dropWhile (\<lambda>x. x \<noteq> CHR '')'') ds of
               [] \<Rightarrow> None
             | _ # r \<Rightarrow>
                 (case r of
                    [] \<Rightarrow> None
                  | conv # rest \<Rightarrow>
                      if conv \<noteq> CHR ''s'' then None
                      else
                        (case vals (takeWhile (\<lambda>x. x \<noteq> CHR '')'') ds) of
                           None \<Rightarrow> None
                         | Some v \<Rightarrow> map_option (append v) (percent_format vals rest)))))"
  by pat_completeness auto
termination
proof (relation "measure (\<lambda>(vals, s). length s)")
  fix vals c cs d ds x r conv rest
  assume "dropWhile (\<lambda>x. x \<noteq> CHR '')'') ds = x # r" "r = conv # rest"
  then have "length (x # conv # rest) \<le> length ds"
    by (metis length_dropWhile_le)
  then show "((vals, rest), vals, c # cs) \<in> measure (\<lambda>(vals, s). length s)" if "cs = d # ds"
    using that by simp
qed auto

definition basic_config_format :: py_str where
  "basic_config_format = ''%(asctime)s - %(name)s - %(levelname)s - %(message)s''"

definition basic_config_level :: log_level where
  "basic_config_level = INFO"

definition logger_name :: py_str where
  "logger_name = ''__main__''"

definition stream_terminator :: py_str where
  "stream_terminator = [CHR 0x0A]"

definition is_enabled_for :: "log_level \<Rightarrow> log_level \<Rightarrow> bool" where
  "is_enabled_for threshold lvl \<longleftrightarrow> level_no threshold \<le> level_no lvl"

definition format_record :: "log_record \<Rightarrow> py_str option" where
  "format_record r = percent_format (record_attr r) basic_config_format"

definition log_emit :: "log_level \<Rightarrow> py_str \<Rightarrow> py_str \<Rightarrow> py_str" where
  "log_emit lvl asctime msg =
     (if \<not> is_enabled_for basic_config_level lvl then []
      else
        (case format_record \<lparr>rec_asctime = asctime, rec_name = logger_name,
                              rec_levelname = level_name lvl, rec_message = msg\<rparr> of
           Some line \<Rightarrow> line @ stream_terminator
         | None \<Rightarrow> ''--- Logging error ---'' @ stream_terminator))"

definition logger_error :: "py_str \<Rightarrow> py_str \<Rightarrow> py_str" where
  "logger_error asctime msg = log_emit ERROR asctime msg"

text \<open>
  \<open>Logger.exception(msg)\<close> on another module's logger: an ERROR record whose
  formatted text is followed by a newline and the formatted traceback
  (\<open>Formatter.format\<close> appends \<open>exc_text\<close>); the record propagates to the root
  handler configured above.
\<close>

definition log_emit_exception :: "py_str \<Rightarrow> py_str \<Rightarrow> py_str \<Rightarrow> py_str \<Rightarrow> py_str" where
  "log_emit_exception name asctime msg exc_text =
     (if \<not> is_enabled_for basic_config_level ERROR then []
      else
        (case format_record \<lparr>rec_asctime = asctime, rec_name = name,
                              rec_levelname = level_name ERROR, rec_message = msg\<rparr> of
           Some line \<Rightarrow> line @ [CHR 0x0A] @ exc_text @ stream_terminator
         | None \<Rightarrow> ''--- Logging error ---'' @ stream_terminator))"

lemma format_record_fields:
  "format_record r
   = Some (rec_asctime r @ '' - '' @ rec_name r @ '' - '' @ rec_levelname r @ '' - '' @ rec_message r)"
  by (simp add: format_record_def basic_config_format_def record_attr_def)

lemmas log_emit_eval = log_emit_def log_emit_exception_def is_enabled_for_def basic_config_level_def format_record_fields
  logger_name_def stream_terminator_def

lemma logger_error_line:
  "logger_error asctime msg = asctime @ '' - __main__ - ERROR - '' @ msg @ [CHR 0x0A]"
  by (simp add: logger_error_def log_emit_eval)

text \<open>C23: 
  The configured handler: a record of level INFO or above is written as one line, its
  time, the logger name __main__, the level name and the message separated by " - "
  (a message containing % or " - " is copied verbatim), followed by a newline; DEBUG
  records are dropped.
\<close>

theorem log_emit_threshold:
  "log_emit lvl asctime msg
   = (if 20 \<le> level_no lvl
      then asctime @ '' - __main__ - '' @ level_name lvl @ '' - '' @ msg @ [CHR 0x0A] else [])"
  by (simp add: log_emit_eval)

end
