(* ===== verification/Relevance.thy ===== *)
theory Relevance
  imports Soup Logging
begin

text \<open>
  The relevance filter \<open>fetch_keywords_from_url(url, keywords)\<close> of
  \<open>src/teleBot.py\<close> (lines 31-44). The \<open>try\<close> body (lines 36-41) is
  \<open>fetch_keywords_body\<close>, whose exceptions are the \<open>Inl\<close> side of a sum; the
  \<open>except Exception\<close> handler (lines 42-44) maps every one of them to the empty
  list; \<open>fetch_keywords_logged\<close> adds the line it logs. The HTTP client is a parameter of type
  \<open>http_get\<close>: \<open>requests.get(url, headers=headers)\<close>, returning a response or
  raising; the bot passes \<open>requests_get\<close> over its network transport, and the
  headers are those of lines 32-34.
\<close>

type_synonym http_get = "py_str \<Rightarrow> py_headers \<Rightarrow> request_error + response"

text \<open>Lines 32-34: the browser User-Agent every request carries.\<close>

definition request_headers :: py_headers where
  "request_headers =
     [(''User-Agent'', ''Mozilla/5.0 (Windows NT 10.0; Win64; x64) AppleWebKit/537.36 (KHTML, like Gecko) Chrome/110.0.0.0 Safari/537.36'')]"

text \<open>Lines 38-39: the page's visible text, lowercased.\<close>

definition visible_text :: "response \<Rightarrow> py_str" where
  "visible_text response = py_lower (soup_get_text '' '' (content response))"

definition fetch_keywords_body ::
  "http_get \<Rightarrow> py_str \<Rightarrow> py_str list \<Rightarrow> request_error + py_str list" where
  "fetch_keywords_body get url keywords =
     (case get url request_headers of
        Inl e \<Rightarrow> Inl e
      | Inr response \<Rightarrow>
          (case raise_for_status response of
             Inl e \<Rightarrow> Inl e
           | Inr _ \<Rightarrow>
               (let words = findall_words (visible_text response)
                in Inr [kw \<leftarrow> keywords. py_lower kw \<in> set words])))"

definition fetch_keywords_from_url :: "http_get \<Rightarrow> py_str \<Rightarrow> py_str list \<Rightarrow> py_str list" where
  "fetch_keywords_from_url get url keywords =
     (case fetch_keywords_body get url keywords of
        Inl e \<Rightarrow> []
      | Inr relevant \<Rightarrow> relevant)"


text \<open>
  The whole function with its effect on the log: the \<open>except\<close> handler (lines 42-44)
  writes \<open>logger.error(f"Error parsing URL: {e}")\<close> to standard error. \<open>str(e)\<close>
  is the parameter \<open>exc_str\<close> and the record's creation time \<open>asctime\<close>; the
  second component is the text written to the stream.
\<close>

definition fetch_keywords_logged ::
  "http_get \<Rightarrow> (request_error \<Rightarrow> py_str) \<Rightarrow> py_str \<Rightarrow> py_str \<Rightarrow> py_str list \<Rightarrow> py_str list \<times> py_str" where
  "fetch_keywords_logged get exc_str asctime url keywords =
     (case fetch_keywords_body get url keywords of
        Inl e \<Rightarrow> ([], logger_error asctime (''Error parsing URL: '' @ exc_str e))
      | Inr relevant \<Rightarrow> (relevant, []))"

subsection \<open>Example sites\<close>

text \<open>
  A page with the text of the spec's whole-word example, served with status 200, and a
  client that serves it at one URL and raises for every other.
\<close>

definition seo_page :: response where
  "seo_page = \<lparr>status_code = 200,
     content = [Element ''body'' [Element ''p'' [Text_node ''We offer SEO and marketing services''],
                Element ''script'' [Text_node ''var market = 1'']]]\<rparr>"

definition seo_site :: http_get where
  "seo_site url headers = (if url = ''https://seo.example'' then Inr seo_page else Inl RequestException)"

text \<open>A server that answers the browser User-Agent only; others get 403.\<close>

definition ua_only_site :: http_get where
  "ua_only_site url headers = (if headers = request_headers then Inr seo_page else Inr \<lparr>status_code = 403, content = []\<rparr>)"

subsection \<open>Behaviour of the filter\<close>

lemma fetch_keywords_from_url_cases:
  "fetch_keywords_from_url get url keywords =
     (case get url request_headers of
        Inl e \<Rightarrow> []
      | Inr response \<Rightarrow>
          (if raise_for_status response = Inr ()
           then [kw \<leftarrow> keywords. py_lower kw \<in> set (findall_words (visible_text response))]
           else []))"
  by (auto simp: fetch_keywords_from_url_def fetch_keywords_body_def Let_def
           split: sum.splits)

lemma fetch_keywords_mem:
  "kw \<in> set (fetch_keywords_from_url get url keywords) \<longleftrightarrow>
     kw \<in> set keywords \<and>
     (\<exists>response. get url request_headers = Inr response \<and> raise_for_status response = Inr () \<and>
        py_lower kw \<in> set (findall_words (visible_text response)))"
  by (cases "get url request_headers") (auto simp: fetch_keywords_from_url_cases)

text \<open>C1: 
  The relevance contract: a keyword is returned iff it is one of the candidates, the
  page was fetched without an HTTP error status, and its lowercase form is a whole word
  of the page's lowercased visible text, i.e. a non-empty run of word characters with no
  word character right before or right after it.
\<close>

theorem fetch_keywords_relevant:
  "kw \<in> set (fetch_keywords_from_url get url keywords) \<longleftrightarrow>
     kw \<in> set keywords \<and>
     (\<exists>response. get url request_headers = Inr response
        \<and> \<not> (400 \<le> status_code response \<and> status_code response < 600)
        \<and> is_word_token (py_lower kw)
        \<and> (\<exists>a r. visible_text response = a @ py_lower kw @ r
                \<and> (a = [] \<or> \<not> py_is_word_char (last a))
                \<and> (r = [] \<or> \<not> py_is_word_char (hd r))))"
  unfolding fetch_keywords_mem findall_words_iff raise_for_status_ok_iff by blast

text \<open>C4: 
  Errors degrade to the empty list: when the request raises, or the response has an HTTP error status (400..599), the filter returns [] and raises nothing.
\<close>

theorem fetch_keywords_error:
  "get url request_headers = Inl e \<or> (get url request_headers = Inr response \<and> 400 \<le> status_code response \<and> status_code response < 600)
   \<Longrightarrow> fetch_keywords_from_url get url keywords = []"
  by (auto simp: fetch_keywords_from_url_cases raise_for_status_def)

lemma fetch_keywords_logged_result:
  "fst (fetch_keywords_logged get exc_str asctime url keywords) = fetch_keywords_from_url get url keywords"
  by (simp add: fetch_keywords_logged_def fetch_keywords_from_url_def split: sum.splits)

text \<open>C7: 
  Every failure is logged and nothing else is: when the request raises, one ERROR line
  with the exception's text is written; when the response has an HTTP error status, one
  line for the HTTPError of that status; a successful fetch writes nothing. The line has
  the configured layout: time, logger name, level, message.
\<close>

theorem fetch_keywords_logs_errors:
  "snd (fetch_keywords_logged get exc_str asctime url keywords)
   = (let line = (\<lambda>e. asctime @ '' - __main__ - ERROR - Error parsing URL: '' @ exc_str e @ [CHR 0x0A]) in
      case get url request_headers of
        Inl e \<Rightarrow> line e
      | Inr response \<Rightarrow>
          if 400 \<le> status_code response \<and> status_code response < 600
          then line (HTTPError (status_code response)) else [])"
  by (simp add: fetch_keywords_logged_def fetch_keywords_body_def logger_error_line
      raise_for_status_def Let_def split: sum.splits)

text \<open>C13: 
  Words never fuse across elements: the tokens of a page's lowercased visible text are the
  lowercased tokens of its text nodes, in document order, so a keyword matches iff it is
  a whole word of one text node.
\<close>

theorem visible_text_tokens:
  "findall_words (visible_text r) = map py_lower (concat (map findall_words (nodes_strings (content r))))"
  by (simp add: visible_text_def findall_words_py_lower findall_words_soup_get_text)

text \<open>C8: 
  Through requests: a website answer the bot accepts (it starts with http) but that is
  not an http:// or https:// URL, such as httpbakery or http:bakery, is rejected by
  requests before any connection (MissingSchema, InvalidURL or InvalidSchema): the filter
  returns [] and logs that exception.
\<close>

theorem fetch_keywords_url_rejected:
  "py_startswith url ''http'' \<Longrightarrow>
   \<not> (py_startswith (py_lower url) ''http://'' \<or> py_startswith (py_lower url) ''https://'') \<Longrightarrow>
   \<exists>e\<in>{MissingSchema, InvalidURL, InvalidSchema}.
     fetch_keywords_logged (requests_get transport) exc_str asctime url keywords
     = ([], asctime @ '' - __main__ - ERROR - Error parsing URL: '' @ exc_str e @ [CHR 0x0A])"
  using requests_get_no_adapter[of url transport request_headers]
  by (auto simp: fetch_keywords_logged_def fetch_keywords_body_def logger_error_line)

text \<open>C24: 
  The request the filter makes carries the browser User-Agent of lines 32-34 and nothing
  else matters: two networks that answer requests with these headers alike give the
  same result and the same log.
\<close>

theorem fetch_keywords_request_headers:
  "(\<forall>u. transport u request_headers = transport' u request_headers) \<Longrightarrow>
   fetch_keywords_logged (requests_get transport) exc_str asctime url keywords
   = fetch_keywords_logged (requests_get transport') exc_str asctime url keywords"
  using requests_get_headers[of transport request_headers transport' url]
  by (simp add: fetch_keywords_logged_def fetch_keywords_body_def)

subsection \<open>The filter on the example sites\<close>

lemmas example_site_defs = seo_site_def seo_page_def visible_text_def
  soup_get_text_def py_strip_def py_is_space_def non_text_element_def py_lower_def
  py_lower_char_def char_of_eq_iff_of_char

lemma visible_text_seo_page: "visible_text seo_page = ''we offer seo and marketing services''"
  by (simp add: example_site_defs)

lemma seo_page_status: "status_code seo_page = 200"
  by (simp add: seo_page_def)

theorem fetch_keywords_relevant_witness:
  "''seo'' \<in> set (fetch_keywords_from_url seo_site ''https://seo.example'' [''seo''])"
proof -
  have page: "visible_text seo_page = ''we offer '' @ py_lower ''seo'' @ '' and marketing services''"
    by (simp add: visible_text_seo_page py_lower_def py_lower_char_def char_of_eq_iff_of_char)
  have a: "seo_site ''https://seo.example'' request_headers = Inr seo_page" by (simp add: seo_site_def)
  have b: "\<not> (400 \<le> status_code seo_page \<and> status_code seo_page < 600)" by (simp add: seo_page_status)
  have c: "is_word_token (py_lower ''seo'')"
    by (simp add: is_word_token_def py_is_word_char_def py_lower_def py_lower_char_def char_of_eq_iff_of_char)
  have d: "\<not> py_is_word_char (last ''we offer '')" "\<not> py_is_word_char (hd '' and marketing services'')"
    by (simp_all add: py_is_word_char_def)
  have "\<exists>a r. visible_text seo_page = a @ py_lower ''seo'' @ r
      \<and> (a = [] \<or> \<not> py_is_word_char (last a)) \<and> (r = [] \<or> \<not> py_is_word_char (hd r))"
    using page d by blast
  then show ?thesis unfolding fetch_keywords_relevant using a b c by simp
qed

theorem fetch_keywords_error_witness:
  "fetch_keywords_from_url seo_site ''http://other.example'' [''seo''] = []"
  using fetch_keywords_error[where get = seo_site and url = "''http://other.example''"
      and e = RequestException]
  by (simp add: seo_site_def)

theorem fetch_keywords_url_rejected_witness:
  "fetch_keywords_logged (requests_get (\<lambda>_ _. Inr seo_page)) (\<lambda>_. ''err'') ''t'' ''httpbakery'' [''seo'']
   = ([], ''t'' @ '' - __main__ - ERROR - Error parsing URL: '' @ ''err'' @ [CHR 0x0A])"
  using fetch_keywords_url_rejected[of "''httpbakery''" "\<lambda>_ _. Inr seo_page" "\<lambda>_. ''err''" "''t''" "[''seo'']"]
  by (simp add: py_startswith_def py_lower_def py_lower_char_def)

theorem fetch_keywords_request_headers_witness:
  "fetch_keywords_logged (requests_get ua_only_site) (\<lambda>_. ''err'') ''t'' ''https://seo.example'' [''seo'']
   = fetch_keywords_logged (requests_get (\<lambda>_ _. Inr seo_page)) (\<lambda>_. ''err'') ''t'' ''https://seo.example'' [''seo'']"
  by (rule fetch_keywords_request_headers) (simp add: ua_only_site_def)

end
