(* ===== verification/Expander.thy ===== *)
theory Expander
  imports Text
begin

text \<open>
  The keyword expander \<open>generate_related_keywords(keywords)\<close> of
  \<open>src/teleBot.py\<close> (lines 22-28). The WordNet corpus is an interface: a record of
  the three calls the code makes, \<open>wordnet.synsets(word)\<close>, \<open>synset.lemmas()\<close>
  and \<open>lemma.name()\<close>, over abstract synset and lemma types. The Python set
  \<open>related_keywords\<close> is a duplicate-free list in insertion order, \<open>set.add\<close>
  appends an element not yet present; \<open>list(s)\<close> lists the elements in the order
  of their hash-table slots, which CPython derives from string hashes randomised per
  process: it is \<open>sort_key slot\<close> for an arbitrary slot function, so every
  theorem below holds for every order the interpreter may choose.
\<close>

record ('s, 'l) wordnet =
  synsets :: "py_str \<Rightarrow> 's list"
  synset_lemmas :: "'s \<Rightarrow> 'l list"
  lemma_name :: "'l \<Rightarrow> py_str"

definition py_set_add :: "'a list \<Rightarrow> 'a \<Rightarrow> 'a list" where
  "py_set_add s x = (if x \<in> set s then s else s @ [x])"

definition py_list_of_set :: "('a \<Rightarrow> nat) \<Rightarrow> 'a list \<Rightarrow> 'a list" where
  "py_list_of_set slot s = sort_key slot s"

text \<open>The three nested \<open>for\<close> loops, innermost first (lines 26-27, 25, 24).\<close>

primrec add_lemma_names :: "('s, 'l) wordnet \<Rightarrow> 'l list \<Rightarrow> py_str list \<Rightarrow> py_str list" where
  "add_lemma_names wn [] related = related"
| "add_lemma_names wn (lemma # ls) related =
     add_lemma_names wn ls (py_set_add related (py_lower (lemma_name wn lemma)))"

primrec add_synsets :: "('s, 'l) wordnet \<Rightarrow> 's list \<Rightarrow> py_str list \<Rightarrow> py_str list" where
  "add_synsets wn [] related = related"
| "add_synsets wn (synset # ss) related =
     add_synsets wn ss (add_lemma_names wn (synset_lemmas wn synset) related)"

primrec add_keywords :: "('s, 'l) wordnet \<Rightarrow> py_str list \<Rightarrow> py_str list \<Rightarrow> py_str list" where
  "add_keywords wn [] related = related"
| "add_keywords wn (keyword # ks) related =
     add_keywords wn ks (add_synsets wn (synsets wn keyword) related)"

definition generate_related_keywords ::
  "('s, 'l) wordnet \<Rightarrow> (py_str \<Rightarrow> nat) \<Rightarrow> py_str list \<Rightarrow> py_str list" where
  "generate_related_keywords wn slot keywords = py_list_of_set slot (add_keywords wn keywords [])"

text \<open>
  \<open>nltk.corpus.wordnet\<close> is a lazy corpus loader: the first call of
  \<open>wordnet.synsets\<close> loads the corpus and raises \<open>LookupError\<close> when it is not
  installed. The corpus is \<open>None\<close> when missing; the loop then raises at its first
  seed, and an empty seed list never touches the corpus.
\<close>

datatype py_exception = LookupError

definition generate_with_corpus ::
  "('s, 'l) wordnet option \<Rightarrow> (py_str \<Rightarrow> nat) \<Rightarrow> py_str list \<Rightarrow> py_exception + py_str list" where
  "generate_with_corpus corpus slot keywords =
     (case corpus of
        None \<Rightarrow> if keywords = [] then Inr [] else Inl LookupError
      | Some wn \<Rightarrow> Inr (generate_related_keywords wn slot keywords))"

text \<open>
  The contract of the expander (spec section 4.1): the set of the lowercased lemma
  names of every sense of every seed term.
\<close>

definition related_spec :: "('s, 'l) wordnet \<Rightarrow> py_str list \<Rightarrow> py_str set" where
  "related_spec wn keywords =
     (\<Union>k\<in>set keywords. \<Union>s\<in>set (synsets wn k). (\<lambda>l. py_lower (lemma_name wn l)) ` set (synset_lemmas wn s))"

text \<open>
  The lexicon of the spec's end-to-end scenario: \<open>bakery\<close> has one sense, \<open>sales\<close>
  two, one of whose lemma names is capitalised; every other word has none.
\<close>

definition bakery_wordnet :: "(nat, py_str) wordnet" where
  "bakery_wordnet =
     \<lparr>synsets = (\<lambda>w. if w = ''bakery'' then [1] else if w = ''sales'' then [2, 3] else []),
      synset_lemmas = (\<lambda>s. if s = 1 then [''bakery'', ''bakeshop'']
                          else if s = 2 then [''sale'', ''sales''] else [''sales'', ''Marketing'']),
      lemma_name = id\<rparr>"

text \<open>The number of lemma occurrences the three loops visit.\<close>

definition lemma_occurrences :: "('s, 'l) wordnet \<Rightarrow> py_str list \<Rightarrow> nat" where
  "lemma_occurrences wn keywords =
     sum_list (map (\<lambda>k. sum_list (map (\<lambda>s. length (synset_lemmas wn s)) (synsets wn k))) keywords)"

subsection \<open>The Python set as a duplicate-free list\<close>

lemma set_py_set_add [simp]: "set (py_set_add s x) = insert x (set s)"
  by (auto simp: py_set_add_def)

lemma distinct_py_set_add [simp]: "distinct s \<Longrightarrow> distinct (py_set_add s x)"
  by (simp add: py_set_add_def)

lemma py_set_add_present: "x \<in> set s \<Longrightarrow> py_set_add s x = s"
  by (simp add: py_set_add_def)

subsection \<open>The loops\<close>

lemma set_add_lemma_names:
  "set (add_lemma_names wn ls related) = set related \<union> (\<lambda>l. py_lower (lemma_name wn l)) ` set ls"
  by (induction ls arbitrary: related) auto

lemma set_add_synsets:
  "set (add_synsets wn ss related) =
     set related \<union> (\<Union>s\<in>set ss. (\<lambda>l. py_lower (lemma_name wn l)) ` set (synset_lemmas wn s))"
  by (induction ss arbitrary: related) (auto simp: set_add_lemma_names)

lemma set_add_keywords:
  "set (add_keywords wn ks related) = set related \<union> related_spec wn ks"
  by (induction ks arbitrary: related) (auto simp: set_add_synsets related_spec_def)

lemma distinct_add_keywords:
  "distinct related \<Longrightarrow> distinct (add_keywords wn ks related)"
proof -
  have lem: "distinct r \<Longrightarrow> distinct (add_lemma_names wn ls r)" for ls r
    by (induction ls arbitrary: r) auto
  have syn: "distinct r \<Longrightarrow> distinct (add_synsets wn ss r)" for ss r
    by (induction ss arbitrary: r) (auto simp: lem)
  show "distinct related \<Longrightarrow> distinct (add_keywords wn ks related)"
    by (induction ks arbitrary: related) (auto simp: syn)
qed

lemma add_keywords_append:
  "add_keywords wn (xs @ ys) related = add_keywords wn ys (add_keywords wn xs related)"
  by (induction xs arbitrary: related) auto

lemma add_lemma_names_present:
  "(\<lambda>l. py_lower (lemma_name wn l)) ` set ls \<subseteq> set related \<Longrightarrow> add_lemma_names wn ls related = related"
  by (induction ls) (auto simp: py_set_add_present)

lemma add_synsets_present:
  "(\<Union>s\<in>set ss. (\<lambda>l. py_lower (lemma_name wn l)) ` set (synset_lemmas wn s)) \<subseteq> set related
   \<Longrightarrow> add_synsets wn ss related = related"
  by (induction ss) (auto simp: add_lemma_names_present)

lemma add_keywords_present:
  "related_spec wn ks \<subseteq> set related \<Longrightarrow> add_keywords wn ks related = related"
  by (induction ks) (auto simp: related_spec_def add_synsets_present)

lemma length_py_set_add: "length (py_set_add s x) \<le> Suc (length s)"
  by (simp add: py_set_add_def)

lemma length_add_keywords:
  "length (add_keywords wn ks related) \<le> length related + lemma_occurrences wn ks"
proof -
  have lem: "length (add_lemma_names wn ls r) \<le> length r + length ls" for ls r
  proof (induction ls arbitrary: r)
    case (Cons l ls)
    have "length (py_set_add r (py_lower (lemma_name wn l))) \<le> Suc (length r)"
      by (rule length_py_set_add)
    then show ?case using Cons.IH[of "py_set_add r (py_lower (lemma_name wn l))"] by simp
  qed simp
  have syn: "length (add_synsets wn ss r) \<le> length r + sum_list (map (\<lambda>s. length (synset_lemmas wn s)) ss)" for ss r
  proof (induction ss arbitrary: r)
    case (Cons s ss)
    then show ?case using lem[of "synset_lemmas wn s" r] Cons.IH[of "add_lemma_names wn (synset_lemmas wn s) r"]
      by (simp; linarith)
  qed simp
  show ?thesis
  proof (induction ks arbitrary: related)
    case (Cons k ks)
    have "lemma_occurrences wn (k # ks)
        = sum_list (map (\<lambda>s. length (synset_lemmas wn s)) (synsets wn k)) + lemma_occurrences wn ks"
      by (simp add: lemma_occurrences_def)
    then show ?case using syn[of "synsets wn k" related] Cons.IH[of "add_synsets wn (synsets wn k) related"]
      by simp
  qed (simp add: lemma_occurrences_def)
qed

subsection \<open>Properties of the expander\<close>

text \<open>C3: 
  Refinement: the keywords listed are exactly the expander's contract, the set of the
  lowercased lemma names of all senses of all seeds, whatever order \<open>list()\<close> uses.
\<close>

theorem generate_refines_spec:
  "set (generate_related_keywords wn slot keywords) = related_spec wn keywords"
  by (simp add: generate_related_keywords_def py_list_of_set_def set_add_keywords)

text \<open>C32: The list has no duplicates (it lists a set).\<close>

theorem generate_distinct: "distinct (generate_related_keywords wn slot keywords)"
  by (simp add: generate_related_keywords_def py_list_of_set_def distinct_add_keywords)

text \<open>C30: 
  The order of the seeds does not matter: seed lists with the same elements give the
  same set of keywords, even under different iteration orders.
\<close>

theorem generate_reorder:
  "set keywords = set keywords' \<Longrightarrow>
   set (generate_related_keywords wn slot keywords) = set (generate_related_keywords wn slot' keywords')"
  by (simp add: generate_related_keywords_def py_list_of_set_def set_add_keywords related_spec_def)

text \<open>C31: 
  A seed with no senses contributes nothing: removing it anywhere from the seed list
  leaves the resulting list unchanged, order included.
\<close>

theorem generate_unmatched:
  "synsets wn k = [] \<Longrightarrow>
   generate_related_keywords wn slot (ks1 @ k # ks2) = generate_related_keywords wn slot (ks1 @ ks2)"
  by (simp add: generate_related_keywords_def add_keywords_append)

text \<open>C33: Repeating a seed changes nothing, since \<open>set.add\<close> of a present element is a no-op.\<close>

theorem generate_repeated_seed:
  "k \<in> set ks \<Longrightarrow> generate_related_keywords wn slot (ks @ [k]) = generate_related_keywords wn slot ks"
proof -
  assume "k \<in> set ks"
  then have "related_spec wn [k] \<subseteq> set (add_keywords wn ks [])"
    by (auto simp: set_add_keywords related_spec_def)
  then have "add_keywords wn [k] (add_keywords wn ks []) = add_keywords wn ks []"
    by (rule add_keywords_present)
  then show ?thesis
    by (simp only: generate_related_keywords_def add_keywords_append)
qed

text \<open>C29: 
  Bound: the expander lists at most as many keywords as the lemma occurrences it visits
  (the sum over the seeds and their senses of the number of lemmas).
\<close>

theorem generate_count_bound:
  "length (generate_related_keywords wn slot keywords) \<le> lemma_occurrences wn keywords"
  using length_add_keywords[where related = "[]"]
  by (simp add: generate_related_keywords_def py_list_of_set_def)

theorem generate_reorder_witness:
  "set (generate_related_keywords bakery_wordnet length [''bakery'', ''sales''])
   = set (generate_related_keywords bakery_wordnet (\<lambda>_. 0) [''sales'', ''bakery'', ''sales''])"
  by (rule generate_reorder) auto

theorem generate_unmatched_witness:
  "generate_related_keywords bakery_wordnet length ([''bakery''] @ ''xyzzy'' # [''sales''])
   = generate_related_keywords bakery_wordnet length ([''bakery''] @ [''sales''])"
  by (rule generate_unmatched) (simp add: bakery_wordnet_def)

theorem generate_repeated_seed_witness:
  "generate_related_keywords bakery_wordnet length ([''bakery'', ''sales''] @ [''bakery''])
   = generate_related_keywords bakery_wordnet length [''bakery'', ''sales'']"
  by (rule generate_repeated_seed) simp

end
