(* ===== verification/Dialogue.thy ===== *)
theory Dialogue
  imports Relevance Expander
begin

text \<open>
  The Telegram conversation of \<open>src/teleBot.py\<close>: the seven question states
  (lines 15-19), the handlers \<open>start\<close> .. \<open>location\<close> and \<open>cancel\<close> (lines 47-114)
  and the \<open>ConversationHandler\<close> that \<open>main\<close> wires them into (lines 119-131).
  \<^item> \<open>context.user_data\<close> is the record \<open>user_data\<close>, one optional field per key
    (\<open>None\<close>: key absent); the website key holds a Python \<open>str | None\<close>, so its
    field is \<open>py_str option option\<close>. It belongs to the user and survives the end of
    a conversation.
  \<^item> A handler gets the user data and the message text and returns the new user data,
    the replies it sent (\<open>reply_text\<close>) and the state it returned, \<open>None\<close> for
    \<open>ConversationHandler.END\<close>.
  \<^item> The external services \<open>location\<close> reaches are a \<open>runtime\<close>: the WordNet
    corpus (\<open>None\<close> when it is not installed), the network under \<open>requests.get\<close>,
    the set iteration order, and for the log the records' time stamp, \<open>str(e)\<close> of the
    request exceptions and the formatted traceback of a handler exception.
  \<^item> \<open>location\<close> may raise: without the corpus, \<open>generate_related_keywords\<close>
    raises \<open>LookupError\<close> after the location has been stored. Its outcome is a sum,
    and the dispatcher keeps the state and sends nothing when a callback raises.
  \<^item> An update is a command (\<open>/name ...\<close>, the \<open>filters.COMMAND\<close> messages), a
    plain text message, or anything else. The dispatcher follows python-telegram-bot's
    \<open>ConversationHandler\<close> with \<open>allow_reentry=False\<close>: outside a conversation only
    the entry point \<open>/start\<close> is handled; inside one, the state's handler if its filter
    \<open>TEXT & ~COMMAND\<close> matches, else the fallback \<open>/cancel\<close>, else nothing.
\<close>

datatype conv_state = INDUSTRY | OBJECTIVE | WEBSITE | SOCIAL_MEDIA | PPC_CAMPAIGN | AUDIENCE | LOCATION

text \<open>The integer each state stands for, \<open>range(7)\<close> (lines 16-19).\<close>

primrec conv_state_index :: "conv_state \<Rightarrow> nat" where
  "conv_state_index INDUSTRY = 0"
| "conv_state_index OBJECTIVE = 1"
| "conv_state_index WEBSITE = 2"
| "conv_state_index SOCIAL_MEDIA = 3"
| "conv_state_index PPC_CAMPAIGN = 4"
| "conv_state_index AUDIENCE = 5"
| "conv_state_index LOCATION = 6"

record user_data =
  ud_industry :: "py_str option"
  ud_objective :: "py_str option"
  ud_website :: "py_str option option"
  ud_social_media :: "py_str option"
  ud_ppc_campaign :: "bool option"
  ud_audience :: "py_str option"
  ud_location :: "py_str option"

definition empty_user_data :: user_data where
  "empty_user_data =
     \<lparr>ud_industry = None, ud_objective = None, ud_website = None, ud_social_media = None,
      ud_ppc_campaign = None, ud_audience = None, ud_location = None\<rparr>"

record ('s, 'l) runtime =
  rt_wordnet :: "('s, 'l) wordnet option"
  rt_transport :: http_get
  rt_set_slot :: "py_str \<Rightarrow> nat"
  rt_clock :: py_str
  rt_exc_str :: "request_error \<Rightarrow> py_str"
  rt_traceback :: "py_exception \<Rightarrow> py_str"

type_synonym handler_result = "user_data \<times> py_str list \<times> conv_state option"

text \<open>
  A handler that raises: the exception and the user data as the handler left it (its
  assignments before the raising call have happened).
\<close>

type_synonym handler_outcome = "(py_exception \<times> user_data) + handler_result"

definition newline :: py_str where
  "newline = [CHR 0x0A]"

subsection \<open>The handlers\<close>

definition start :: "user_data \<Rightarrow> handler_result" where
  "start ud =
     (ud, [''Welcome to the Keyword Bot! Let's get started.'' @ newline @
           ''What industry is your business in?''], Some INDUSTRY)"

definition industry :: "user_data \<Rightarrow> py_str \<Rightarrow> handler_result" where
  "industry ud text =
     (ud\<lparr>ud_industry := Some text\<rparr>,
      [''What is your business objective (e.g., lead generation, sales)?''], Some OBJECTIVE)"

definition objective :: "user_data \<Rightarrow> py_str \<Rightarrow> handler_result" where
  "objective ud text =
     (ud\<lparr>ud_objective := Some text\<rparr>,
      [''Do you have a website? If yes, please share the URL.''], Some WEBSITE)"

definition website :: "user_data \<Rightarrow> py_str \<Rightarrow> handler_result" where
  "website ud url =
     (ud\<lparr>ud_website := Some (if py_startswith url ''http'' then Some url else None)\<rparr>,
      [''Do you have any social media platforms? If yes, share the URL(s).''], Some SOCIAL_MEDIA)"

definition social_media :: "user_data \<Rightarrow> py_str \<Rightarrow> handler_result" where
  "social_media ud text =
     (ud\<lparr>ud_social_media := Some text\<rparr>,
      [''Do you use PPC campaigns? (Yes/No)''], Some PPC_CAMPAIGN)"

definition ppc_campaign :: "user_data \<Rightarrow> py_str \<Rightarrow> handler_result" where
  "ppc_campaign ud text =
     (ud\<lparr>ud_ppc_campaign := Some (py_lower text = ''yes'')\<rparr>,
      [''Who are you trying to reach? (e.g., young adults, professionals, etc.)''], Some AUDIENCE)"

definition audience :: "user_data \<Rightarrow> py_str \<Rightarrow> handler_result" where
  "audience ud text =
     (ud\<lparr>ud_audience := Some text\<rparr>,
      [''What location would you like to target?''], Some LOCATION)"

text \<open>\<open>user_data.get(key, '')\<close> for the string keys and for the website key.\<close>

definition get_str :: "py_str option \<Rightarrow> py_str" where
  "get_str v = (case v of None \<Rightarrow> [] | Some s \<Rightarrow> s)"

definition get_website :: "py_str option option \<Rightarrow> py_str option" where
  "get_website v = (case v of None \<Rightarrow> Some [] | Some w \<Rightarrow> w)"

text \<open>The truth value of the website value in \<open>if website:\<close> (None and '' are false).\<close>

definition website_truthy :: "py_str option \<Rightarrow> bool" where
  "website_truthy w = (case w of None \<Rightarrow> False | Some url \<Rightarrow> url \<noteq> [])"

definition location_reply :: "py_str \<Rightarrow> py_str \<Rightarrow> py_str list \<Rightarrow> py_str" where
  "location_reply industry_v objective_v relevant =
     ''Generated Keywords based on inputs:'' @ newline @
     ''Industry: '' @ industry_v @ newline @
     ''Objective: '' @ objective_v @ newline @
     ''Relevant Keywords: '' @
     (if relevant \<noteq> [] then py_str_join '', '' relevant else ''No relevant keywords found.'')"

text \<open>
  The handler together with the ERROR record it writes to standard error: the
  filter's log line when the fetch fails (the INFO line httpx writes for the
  \<open>reply_text\<close> request is not modelled). The replies and the new state are
  \<open>location\<close>.
\<close>

definition location_logged :: "('s, 'l) runtime \<Rightarrow> user_data \<Rightarrow> py_str \<Rightarrow> handler_outcome \<times> py_str" where
  "location_logged rt ud text =
     (let ud' = ud\<lparr>ud_location := Some text\<rparr>;
          industry_v = get_str (ud_industry ud');
          objective_v = get_str (ud_objective ud');
          website_v = get_website (ud_website ud')
      in case generate_with_corpus (rt_wordnet rt) (rt_set_slot rt) [industry_v, objective_v] of
           Inl e \<Rightarrow> (Inl (e, ud'), [])
         | Inr keywords \<Rightarrow>
             (let (relevant, log) =
                    (if website_truthy website_v
                     then fetch_keywords_logged (requests_get (rt_transport rt)) (rt_exc_str rt) (rt_clock rt)
                            (the website_v) keywords
                     else ([], []))
              in (Inr (ud', [location_reply industry_v objective_v relevant], None), log)))"

definition location :: "('s, 'l) runtime \<Rightarrow> user_data \<Rightarrow> py_str \<Rightarrow> handler_outcome" where
  "location rt ud text = fst (location_logged rt ud text)"

definition cancel :: "user_data \<Rightarrow> handler_result" where
  "cancel ud = (ud, [''Operation cancelled. Type /start to restart.''], None)"

subsection \<open>The conversation handler\<close>

datatype update = Command py_str | Text_message py_str | Other_update

record bot_state =
  conversation :: "conv_state option"
  user_data :: user_data

definition initial_bot_state :: bot_state where
  "initial_bot_state = \<lparr>conversation = None, user_data = empty_user_data\<rparr>"

text \<open>The \<open>states\<close> table of lines 121-129.\<close>

definition state_handler :: "('s, 'l) runtime \<Rightarrow> conv_state \<Rightarrow> user_data \<Rightarrow> py_str \<Rightarrow> handler_outcome" where
  "state_handler rt st ud text =
     (case st of
        INDUSTRY \<Rightarrow> Inr (industry ud text)
      | OBJECTIVE \<Rightarrow> Inr (objective ud text)
      | WEBSITE \<Rightarrow> Inr (website ud text)
      | SOCIAL_MEDIA \<Rightarrow> Inr (social_media ud text)
      | PPC_CAMPAIGN \<Rightarrow> Inr (ppc_campaign ud text)
      | AUDIENCE \<Rightarrow> Inr (audience ud text)
      | LOCATION \<Rightarrow> location rt ud text)"

definition apply_handler :: "handler_result \<Rightarrow> bot_state \<times> py_str list" where
  "apply_handler r = (case r of (ud, replies, next) \<Rightarrow> (\<lparr>conversation = next, user_data = ud\<rparr>, replies))"

text \<open>
  An exception in a state's callback propagates out of the conversation handler before
  it records a new state, so the conversation stays where it was; the application
  catches it (no error handler is registered, it is only logged) and nothing is sent.
\<close>

definition apply_outcome :: "bot_state \<Rightarrow> handler_outcome \<Rightarrow> bot_state \<times> py_str list" where
  "apply_outcome s r =
     (case r of
        Inl (e, ud) \<Rightarrow> (s\<lparr>user_data := ud\<rparr>, [])
      | Inr res \<Rightarrow> apply_handler res)"

definition conv_handler_step :: "('s, 'l) runtime \<Rightarrow> bot_state \<Rightarrow> update \<Rightarrow> bot_state \<times> py_str list" where
  "conv_handler_step rt s u =
     (case conversation s of
        None \<Rightarrow>
          (case u of
             Command c \<Rightarrow> if c = ''start'' then apply_handler (start (user_data s)) else (s, [])
           | _ \<Rightarrow> (s, []))
      | Some st \<Rightarrow>
          (case u of
             Text_message text \<Rightarrow> apply_outcome s (state_handler rt st (user_data s) text)
           | Command c \<Rightarrow> if c = ''cancel'' then apply_handler (cancel (user_data s)) else (s, [])
           | Other_update \<Rightarrow> (s, [])))"

fun conv_run :: "('s, 'l) runtime \<Rightarrow> bot_state \<Rightarrow> update list \<Rightarrow> bot_state \<times> py_str list" where
  "conv_run rt s [] = (s, [])"
| "conv_run rt s (u # us) =
     (let (s', replies) = conv_handler_step rt s u;
          (s'', more) = conv_run rt s' us
      in (s'', replies @ more))"


subsection \<open>Reachable states and the recorded answers\<close>

text \<open>
  The states the bot reaches from its start (no conversation, empty user data) by any
  sequence of updates, and the invariant that in each question state the answers to
  all earlier questions are stored.
\<close>

inductive reachable :: "('s, 'l) runtime \<Rightarrow> bot_state \<Rightarrow> bool" for rt where
  init: "reachable rt initial_bot_state"
| step: "reachable rt s \<Longrightarrow> reachable rt (fst (conv_handler_step rt s u))"

definition answers_recorded :: "bot_state \<Rightarrow> bool" where
  "answers_recorded s =
     (case conversation s of
        None \<Rightarrow> True
      | Some st \<Rightarrow>
          (let k = conv_state_index st; ud = user_data s in
             (1 \<le> k \<longrightarrow> ud_industry ud \<noteq> None) \<and> (2 \<le> k \<longrightarrow> ud_objective ud \<noteq> None)
           \<and> (3 \<le> k \<longrightarrow> ud_website ud \<noteq> None) \<and> (4 \<le> k \<longrightarrow> ud_social_media ud \<noteq> None)
           \<and> (5 \<le> k \<longrightarrow> ud_ppc_campaign ud \<noteq> None) \<and> (6 \<le> k \<longrightarrow> ud_audience ud \<noteq> None)))"

subsection \<open>An example runtime\<close>

text \<open>
  The spec's bakery scenario: the lexicon \<open>bakery_wordnet\<close>, a site whose page
  mentions a bakery and a sale, and string length as the set iteration order.
\<close>
definition bakery_page :: response where
  "bakery_page = \<lparr>status_code = 200,
     content = [Element ''h1'' [Text_node ''Our Bakery''],
                Element ''p'' [Text_node ''Fresh bread on sale daily.'']]\<rparr>"

definition bakery_site :: http_get where
  "bakery_site url headers = (if url = ''https://bakery.example'' then Inr bakery_page else Inl RequestException)"

definition example_runtime :: "(nat, py_str) runtime" where
  "example_runtime = \<lparr>rt_wordnet = Some bakery_wordnet, rt_transport = bakery_site, rt_set_slot = length,
     rt_clock = ''2026-01-01 00:00:00,000'', rt_exc_str = (\<lambda>_. ''error''), rt_traceback = (\<lambda>_. ''Traceback'')\<rparr>"


subsection \<open>Behaviour of the conversation\<close>

lemmas handler_simps = start_def industry_def objective_def website_def social_media_def
  ppc_campaign_def audience_def cancel_def apply_handler_def apply_outcome_def state_handler_def

lemma location_eq:
  "location rt ud text =
     (case rt_wordnet rt of
        None \<Rightarrow> Inl (LookupError, ud\<lparr>ud_location := Some text\<rparr>)
      | Some wn \<Rightarrow> Inr (ud\<lparr>ud_location := Some text\<rparr>,
          [location_reply (get_str (ud_industry ud)) (get_str (ud_objective ud))
            (if website_truthy (get_website (ud_website ud))
             then fetch_keywords_from_url (requests_get (rt_transport rt)) (the (get_website (ud_website ud)))
                    (generate_related_keywords wn (rt_set_slot rt)
                       [get_str (ud_industry ud), get_str (ud_objective ud)])
             else [])], None))"
  by (cases "website_truthy (get_website (ud_website ud))")
     (simp_all add: location_def location_logged_def generate_with_corpus_def Let_def
       fetch_keywords_logged_result prod.case_eq_if split: option.splits)

lemma conv_run_Cons:
  "conv_run rt s (u # us)
   = (fst (conv_run rt (fst (conv_handler_step rt s u)) us),
      snd (conv_handler_step rt s u) @ snd (conv_run rt (fst (conv_handler_step rt s u)) us))"
  by (simp split: prod.splits)

lemma conv_text_index_step:
  "rt_wordnet rt \<noteq> None \<Longrightarrow>
   map_option conv_state_index (conversation (fst (conv_handler_step rt s (Text_message t))))
   = (case conversation s of
        None \<Rightarrow> None
      | Some st \<Rightarrow> if conv_state_index st = 6 then None else Some (Suc (conv_state_index st)))"
  by (cases "conversation s"; cases "the (conversation s)")
     (auto simp: conv_handler_step_def handler_simps location_eq)

lemma conv_step_replies: "length (snd (conv_handler_step rt s u)) \<le> 1"
  by (cases "conversation s"; cases u; cases "the (conversation s)")
     (auto simp: conv_handler_step_def handler_simps location_eq split: option.splits)

lemma py_startswith_nonempty: "py_startswith s pre \<Longrightarrow> pre \<noteq> [] \<Longrightarrow> s \<noteq> []"
  by (auto simp: py_startswith_def)

text \<open>C2: 
  End to end: from any idle state, whatever stale user data it holds, the eight updates /start and seven answers end the conversation with exactly these answers stored, eight replies sent, and a last reply whose keywords are computed from this conversation's industry, objective and website only; a website not starting with http gives no keywords.
\<close>

theorem full_dialogue:
  "conversation s = None \<Longrightarrow> rt_wordnet rt = Some wn \<Longrightarrow>
   conv_run rt s [Command ''start'', Text_message ind, Text_message obj, Text_message url,
                  Text_message soc, Text_message ppc, Text_message aud, Text_message loc] = (s', replies) \<Longrightarrow>
   s' = \<lparr>conversation = None,
         user_data = \<lparr>ud_industry = Some ind, ud_objective = Some obj,
                      ud_website = Some (if py_startswith url ''http'' then Some url else None),
                      ud_social_media = Some soc, ud_ppc_campaign = Some (py_lower ppc = ''yes''),
                      ud_audience = Some aud, ud_location = Some loc\<rparr>\<rparr>
   \<and> length replies = 8
   \<and> last replies = location_reply ind obj
       (if py_startswith url ''http''
        then fetch_keywords_from_url (requests_get (rt_transport rt)) url
               (generate_related_keywords wn (rt_set_slot rt) [ind, obj])
        else [])"
  by (auto simp: conv_handler_step_def handler_simps location_eq get_str_def get_website_def
      website_truthy_def py_startswith_nonempty)

lemma answers_recorded_step:
  "answers_recorded s \<Longrightarrow> answers_recorded (fst (conv_handler_step rt s u))"
  by (cases "conversation s"; cases u; cases "the (conversation s)")
     (auto simp: answers_recorded_def conv_handler_step_def handler_simps location_eq Let_def split: option.splits)

text \<open>C5: 
  Invariant: in every reachable state, a conversation waiting for question k has the answers to questions 1..k-1 stored, so location never falls back to the get defaults.
\<close>

theorem reachable_answers_recorded: "reachable rt s \<Longrightarrow> answers_recorded s"
proof (induction rule: reachable.induct)
  case init
  show ?case by (simp add: answers_recorded_def initial_bot_state_def)
next
  case (step s u)
  from step.IH show ?case by (rule answers_recorded_step)
qed

text \<open>C25: 
  /cancel inside a conversation ends it and sends the cancellation message, but leaves the user data as it was: nothing is cleared.
\<close>

theorem cancel_keeps_user_data:
  "conversation s = Some st \<Longrightarrow>
   conv_handler_step rt s (Command ''cancel'')
   = (s\<lparr>conversation := None\<rparr>, [''Operation cancelled. Type /start to restart.''])"
  by (simp add: conv_handler_step_def handler_simps)

text \<open>C26: 
  Inside a conversation every command other than /cancel, /start included, is ignored: no state change and no reply (no re-entry).
\<close>

theorem commands_ignored_in_conversation:
  "conversation s = Some st \<Longrightarrow> c \<noteq> ''cancel'' \<Longrightarrow> conv_handler_step rt s (Command c) = (s, [])"
  by (simp add: conv_handler_step_def)

text \<open>C27: 
  Outside a conversation every update except /start is ignored.
\<close>

theorem idle_ignores_all_but_start:
  "conversation s = None \<Longrightarrow> u \<noteq> Command ''start'' \<Longrightarrow> conv_handler_step rt s u = (s, [])"
  by (cases u) (auto simp: conv_handler_step_def)

theorem full_dialogue_witness:
  "last (snd (conv_run example_runtime initial_bot_state
     [Command ''start'', Text_message ''bakery'', Text_message ''sales'',
      Text_message ''HTTPS://bakery.example'', Text_message ''none'', Text_message ''Yes'',
      Text_message ''locals'', Text_message ''Berlin'']))
   = location_reply ''bakery'' ''sales'' []"
proof -
  obtain s' replies where eq: "conv_run example_runtime initial_bot_state
     [Command ''start'', Text_message ''bakery'', Text_message ''sales'',
      Text_message ''HTTPS://bakery.example'', Text_message ''none'', Text_message ''Yes'',
      Text_message ''locals'', Text_message ''Berlin''] = (s', replies)"
    by (metis surj_pair)
  have idle: "conversation initial_bot_state = None" by (simp add: initial_bot_state_def)
  have wn: "rt_wordnet example_runtime = Some bakery_wordnet" by (simp add: example_runtime_def)
  from full_dialogue[OF idle wn eq] have "last replies = location_reply ''bakery'' ''sales''
      (if py_startswith ''HTTPS://bakery.example'' ''http''
       then fetch_keywords_from_url (requests_get (rt_transport example_runtime)) ''HTTPS://bakery.example''
              (generate_related_keywords bakery_wordnet (rt_set_slot example_runtime)
                 [''bakery'', ''sales''])
       else [])" by blast
  then show ?thesis using eq by (simp add: py_startswith_def)
qed

theorem reachable_answers_recorded_witness:
  "answers_recorded (fst (conv_handler_step example_runtime initial_bot_state (Command ''start'')))"
  by (rule reachable_answers_recorded) (rule reachable.step[OF reachable.init])

theorem cancel_keeps_user_data_witness:
  "conv_handler_step example_runtime
     \<lparr>conversation = Some WEBSITE, user_data = empty_user_data\<lparr>ud_industry := Some ''bakery''\<rparr>\<rparr>
     (Command ''cancel'')
   = (\<lparr>conversation = None, user_data = empty_user_data\<lparr>ud_industry := Some ''bakery''\<rparr>\<rparr>,
      [''Operation cancelled. Type /start to restart.''])"
  using cancel_keeps_user_data[where s = "\<lparr>conversation = Some WEBSITE,
      user_data = empty_user_data\<lparr>ud_industry := Some ''bakery''\<rparr>\<rparr>" and st = WEBSITE
      and rt = example_runtime]
  by simp

theorem commands_ignored_in_conversation_witness:
  "conv_handler_step example_runtime \<lparr>conversation = Some AUDIENCE, user_data = empty_user_data\<rparr>
     (Command ''start'')
   = (\<lparr>conversation = Some AUDIENCE, user_data = empty_user_data\<rparr>, [])"
  by (rule commands_ignored_in_conversation) simp_all

theorem idle_ignores_all_but_start_witness:
  "conv_handler_step example_runtime initial_bot_state (Text_message ''hello'') = (initial_bot_state, [])"
  by (rule idle_ignores_all_but_start) (simp_all add: initial_bot_state_def)

lemma requests_get_bakery_site:
  "requests_get bakery_site ''https://bakery.example'' h = Inr bakery_page"
  "requests_get bakery_site ''http://down.example'' h = Inl RequestException"
  by (simp_all add: requests_eval bakery_site_def)

text \<open>C10: 
  Termination of the dialogue: from question k (0 for INDUSTRY .. 6 for LOCATION), n
  text answers end the conversation iff n is at least 7 - k; with fewer it waits at
  question k + n. After the end, further text is ignored.
\<close>

theorem answers_end_conversation:
  "conversation s = Some st \<Longrightarrow> rt_wordnet rt \<noteq> None \<Longrightarrow>
   map_option conv_state_index (conversation (fst (conv_run rt s (map Text_message ts))))
   = (if 7 - conv_state_index st \<le> length ts then None else Some (conv_state_index st + length ts))"
proof -
  assume st: "conversation s = Some st" and wn: "rt_wordnet rt \<noteq> None"
  have gen: "map_option conv_state_index (conversation (fst (conv_run rt s (map Text_message ts))))
     = (case map_option conv_state_index (conversation s) of
          None \<Rightarrow> None
        | Some k \<Rightarrow> if 7 - k \<le> length ts then None else Some (k + length ts))"
    if "\<forall>st. conversation s = Some st \<longrightarrow> conv_state_index st < 7" for s
    using that
  proof (induction ts arbitrary: s)
    case Nil
    then show ?case by (cases "conversation s") auto
  next
    case (Cons t ts)
    let ?s' = "fst (conv_handler_step rt s (Text_message t))"
    have idx: "\<forall>st. conversation ?s' = Some st \<longrightarrow> conv_state_index st < 7"
      using conv_text_index_step[OF wn, of s t] Cons.prems by (cases "conversation s") (auto split: if_splits)
    show ?case
      unfolding list.map(2) conv_run_Cons fst_conv
      using Cons.IH[OF idx] conv_text_index_step[OF wn, of s t] Cons.prems
      by (cases "conversation s") (auto split: if_splits)
  qed
  have "conv_state_index st < 7" for st by (cases st) simp_all
  then show ?thesis using gen[of s] st by simp
qed

text \<open>C28: 
  At most one reply per update: a run over any sequence of updates sends no more replies
  than it received updates.
\<close>

theorem conv_run_reply_bound: "length (snd (conv_run rt s us)) \<le> length us"
proof (induction us arbitrary: s)
  case (Cons u us)
  show ?case
    unfolding conv_run_Cons snd_conv length_append
    using conv_step_replies[of rt s u] Cons.IH[of "fst (conv_handler_step rt s u)"] by simp
qed simp

theorem answers_end_conversation_witness:
  "map_option conv_state_index (conversation (fst (conv_run example_runtime
      \<lparr>conversation = Some PPC_CAMPAIGN, user_data = empty_user_data\<rparr>
      (map Text_message [''yes'', ''locals'', ''Berlin'']))))
   = None"
  using answers_end_conversation[where s = "\<lparr>conversation = Some PPC_CAMPAIGN, user_data = empty_user_data\<rparr>"
      and st = PPC_CAMPAIGN and rt = example_runtime and ts = "[''yes'', ''locals'', ''Berlin'']"]
  by (simp add: example_runtime_def)

text \<open>C11: 
  Without the WordNet corpus the last answer fails after it is stored: the location is
  written to the user data, the LookupError escapes the handler, no reply is sent and
  the conversation stays at the LOCATION question, so only /cancel can end it.
\<close>

theorem location_missing_corpus:
  "rt_wordnet rt = None \<Longrightarrow> conversation s = Some LOCATION \<Longrightarrow>
   conv_handler_step rt s (Text_message t)
   = (s\<lparr>user_data := (user_data s)\<lparr>ud_location := Some t\<rparr>\<rparr>, [])"
  by (simp add: conv_handler_step_def handler_simps location_eq)

theorem location_missing_corpus_witness:
  "conv_handler_step (example_runtime\<lparr>rt_wordnet := None\<rparr>)
     \<lparr>conversation = Some LOCATION, user_data = empty_user_data\<rparr> (Text_message ''Berlin'')
   = (\<lparr>conversation = Some LOCATION, user_data = empty_user_data\<lparr>ud_location := Some ''Berlin''\<rparr>\<rparr>, [])"
  using location_missing_corpus[where rt = "example_runtime\<lparr>rt_wordnet := None\<rparr>"
      and s = "\<lparr>conversation = Some LOCATION, user_data = empty_user_data\<rparr>" and t = "''Berlin''"]
  by simp

text \<open>C18: 
  Round trip of the final reply: when there are relevant keywords and none contains a
  comma, the text after "Relevant Keywords: " split at ", " gives back exactly the
  relevant keywords, in order.
\<close>

theorem location_reply_roundtrip:
  "relevant \<noteq> [] \<Longrightarrow> \<forall>k\<in>set relevant. CHR '','' \<notin> set k \<Longrightarrow>
   \<exists>tail. location_reply ind obj relevant
     = ''Generated Keywords based on inputs:'' @ newline @ ''Industry: '' @ ind @ newline @
       ''Objective: '' @ obj @ newline @ ''Relevant Keywords: '' @ tail
     \<and> py_split_sep '', '' tail = relevant"
  by (simp add: location_reply_def py_split_sep_join)

theorem location_reply_roundtrip_witness:
  "\<exists>tail. location_reply ''bakery'' ''sales'' [''sale'', ''bakery'']
     = ''Generated Keywords based on inputs:'' @ newline @ ''Industry: '' @ ''bakery'' @ newline @
       ''Objective: '' @ ''sales'' @ newline @ ''Relevant Keywords: '' @ tail
     \<and> py_split_sep '', '' tail = [''sale'', ''bakery'']"
  by (rule location_reply_roundtrip) simp_all

end
