(* ===== verification/Polling.thy ===== *)
theory Polling
  imports Dialogue
begin

text \<open>
  \<open>main\<close> (lines 116-135 of \<open>src/teleBot.py\<close>) builds the application, registers
  the one \<open>ConversationHandler\<close> and runs \<open>run_polling\<close>, which hands the
  updates of all chats to the handler one at a time, in the order received (the
  application's default, no concurrent updates). The library's bookkeeping, modelled
  from python-telegram-bot's documentation: with the defaults \<open>per_chat=True\<close>,
  \<open>per_user=True\<close> the conversation state is kept per pair (chat id, user id), while
  \<open>context.user_data\<close> is kept per user id, shared by all chats of that user.
  \<^item> \<open>incoming\<close>: an update with the ids of its chat and its sender;
  \<^item> \<open>app_state\<close>: the two tables, \<open>app_step\<close> one dispatch through
    \<open>conv_handler_step\<close> on the sender's view \<open>user_view\<close>, with the replies
    addressed to the update's chat;
  \<^item> \<open>run_polling\<close> the loop and \<open>bot_main\<close> the whole run from the empty
    tables; the bot token and the network are not modelled.
\<close>

datatype incoming = Incoming (in_chat: int) (in_user: int) (in_update: update)

record app_state =
  app_conversations :: "int \<times> int \<Rightarrow> conv_state option"
  app_user_data :: "int \<Rightarrow> user_data"

definition initial_app_state :: app_state where
  "initial_app_state = \<lparr>app_conversations = (\<lambda>_. None), app_user_data = (\<lambda>_. empty_user_data)\<rparr>"

definition user_view :: "app_state \<Rightarrow> int \<Rightarrow> int \<Rightarrow> bot_state" where
  "user_view a chat user = \<lparr>conversation = app_conversations a (chat, user), user_data = app_user_data a user\<rparr>"

definition app_step :: "('s, 'l) runtime \<Rightarrow> app_state \<Rightarrow> incoming \<Rightarrow> app_state \<times> (int \<times> py_str) list" where
  "app_step rt a m =
     (case m of Incoming chat user u \<Rightarrow>
        (let (s', replies) = conv_handler_step rt (user_view a chat user) u
         in (\<lparr>app_conversations = (app_conversations a)((chat, user) := conversation s'),
              app_user_data = (app_user_data a)(user := user_data s')\<rparr>,
             map (\<lambda>r. (chat, r)) replies)))"

fun run_polling :: "('s, 'l) runtime \<Rightarrow> app_state \<Rightarrow> incoming list \<Rightarrow> app_state \<times> (int \<times> py_str) list" where
  "run_polling rt a [] = (a, [])"
| "run_polling rt a (m # ms) =
     (let (a', replies) = app_step rt a m;
          (a'', more) = run_polling rt a' ms
      in (a'', replies @ more))"

definition bot_main :: "('s, 'l) runtime \<Rightarrow> incoming list \<Rightarrow> (int \<times> py_str) list" where
  "bot_main rt updates = snd (run_polling rt initial_app_state updates)"

definition chat_transcript :: "int \<Rightarrow> (int \<times> py_str) list \<Rightarrow> py_str list" where
  "chat_transcript chat out = map snd (filter (\<lambda>(c, r). c = chat) out)"

definition user_updates :: "int \<Rightarrow> incoming list \<Rightarrow> update list" where
  "user_updates user ms = map in_update (filter (\<lambda>m. in_user m = user) ms)"

text \<open>
  The script entry (lines 137-140): \<open>nltk.download('wordnet')\<close>, then \<open>main()\<close>.
  The download fetches the corpus when the network allows and otherwise only prints an
  error, so afterwards the corpus is present iff it was installed before or the download
  succeeded (\<open>nltk_download\<close>); the polling loop then runs with that corpus.
\<close>

definition nltk_download :: "bool \<Rightarrow> bool \<Rightarrow> bool" where
  "nltk_download installed network_ok \<longleftrightarrow> installed \<or> network_ok"

definition script_entry ::
  "('s, 'l) wordnet \<Rightarrow> bool \<Rightarrow> bool \<Rightarrow> ('s, 'l) runtime \<Rightarrow> incoming list \<Rightarrow> (int \<times> py_str) list" where
  "script_entry wn installed network_ok rt updates =
     bot_main (rt\<lparr>rt_wordnet := (if nltk_download installed network_ok then Some wn else None)\<rparr>) updates"

text \<open>The application states reachable from the start by any sequence of updates.\<close>

inductive app_reachable :: "('s, 'l) runtime \<Rightarrow> app_state \<Rightarrow> bool" for rt where
  init: "app_reachable rt initial_app_state"
| step: "app_reachable rt a \<Longrightarrow> app_reachable rt (fst (app_step rt a m))"

text \<open>The stored answers of one user data that are still stored in another.\<close>

definition answers_kept :: "user_data \<Rightarrow> user_data \<Rightarrow> bool" where
  "answers_kept ud ud' \<longleftrightarrow>
     (ud_industry ud \<noteq> None \<longrightarrow> ud_industry ud' \<noteq> None) \<and> (ud_objective ud \<noteq> None \<longrightarrow> ud_objective ud' \<noteq> None)
   \<and> (ud_website ud \<noteq> None \<longrightarrow> ud_website ud' \<noteq> None) \<and> (ud_social_media ud \<noteq> None \<longrightarrow> ud_social_media ud' \<noteq> None)
   \<and> (ud_ppc_campaign ud \<noteq> None \<longrightarrow> ud_ppc_campaign ud' \<noteq> None) \<and> (ud_audience ud \<noteq> None \<longrightarrow> ud_audience ud' \<noteq> None)"

text \<open>
  Two users in their private chats, their updates interleaved, and one user who answers
  in a private chat (10) and in a group chat (20).
\<close>

definition two_users :: "incoming list" where
  "two_users =
     [Incoming 1 1 (Command ''start''), Incoming 2 2 (Command ''start''),
      Incoming 1 1 (Text_message ''bakery''), Incoming 2 2 (Text_message ''florist''),
      Incoming 2 2 (Command ''cancel''), Incoming 1 1 (Text_message ''sales'')]"

definition shared_user :: "incoming list" where
  "shared_user =
     [Incoming 10 1 (Command ''start''), Incoming 10 1 (Text_message ''bakery''),
      Incoming 20 1 (Command ''start''), Incoming 20 1 (Text_message ''florist''),
      Incoming 10 1 (Text_message ''sales''), Incoming 10 1 (Text_message ''none''),
      Incoming 10 1 (Text_message ''none''), Incoming 10 1 (Text_message ''no''),
      Incoming 10 1 (Text_message ''locals''), Incoming 10 1 (Text_message ''Berlin'')]"

lemma run_polling_Cons:
  "run_polling rt a (m # ms)
   = (fst (run_polling rt (fst (app_step rt a m)) ms),
      snd (app_step rt a m) @ snd (run_polling rt (fst (app_step rt a m)) ms))"
  by (simp split: prod.splits)

lemma user_view_app_step_same:
  "user_view (fst (app_step rt a (Incoming chat user u))) chat user
   = fst (conv_handler_step rt (user_view a chat user) u)"
  by (simp add: app_step_def user_view_def split: prod.splits)

lemma user_view_app_step_other:
  "user' \<noteq> user \<Longrightarrow> user_view (fst (app_step rt a (Incoming chat' user' u))) chat user = user_view a chat user"
  by (simp add: app_step_def user_view_def split: prod.splits)

lemma snd_app_step:
  "snd (app_step rt a (Incoming chat user u)) = map (Pair chat) (snd (conv_handler_step rt (user_view a chat user) u))"
  by (simp add: app_step_def split: prod.splits)

lemma user_view_app_step_chat:
  "chat' \<noteq> chat \<Longrightarrow> user_view (fst (app_step rt a (Incoming chat' user u))) chat user
   = (user_view a chat user)\<lparr>user_data := user_data (fst (conv_handler_step rt (user_view a chat' user) u))\<rparr>"
  by (simp add: app_step_def user_view_def split: prod.splits)

lemma conv_step_answers_kept:
  "answers_kept (user_data s) (user_data (fst (conv_handler_step rt s u)))"
  by (cases "conversation s"; cases u; cases "the (conversation s)")
     (auto simp: answers_kept_def conv_handler_step_def handler_simps location_eq Let_def split: option.splits)

lemma answers_recorded_kept:
  "answers_recorded s \<Longrightarrow> answers_kept (user_data s) ud \<Longrightarrow> answers_recorded (s\<lparr>user_data := ud\<rparr>)"
  by (auto simp: answers_recorded_def answers_kept_def Let_def split: option.splits)

lemma run_polling_replies:
  "(c, r) \<in> set (snd (run_polling rt a ms)) \<Longrightarrow> \<exists>s u. r \<in> set (snd (conv_handler_step rt s u))"
proof (induction ms arbitrary: a)
  case (Cons m ms)
  obtain chat user u where m: "m = Incoming chat user u" by (cases m)
  from Cons.prems have "(c, r) \<in> set (snd (app_step rt a m)) \<or> (c, r) \<in> set (snd (run_polling rt (fst (app_step rt a m)) ms))"
    unfolding run_polling_Cons snd_conv by simp
  then show ?case
  proof
    assume "(c, r) \<in> set (snd (app_step rt a m))"
    then show ?thesis by (auto simp: m snd_app_step)
  qed (rule Cons.IH)
qed simp

lemma conv_step_no_keyword_reply:
  "rt_wordnet rt = None \<Longrightarrow> r \<in> set (snd (conv_handler_step rt s u)) \<Longrightarrow>
   \<not> py_startswith r ''Generated Keywords''"
  by (cases "conversation s"; cases u; cases "the (conversation s)")
     (auto simp: conv_handler_step_def handler_simps location_eq py_startswith_def newline_def
      split: if_splits)

text \<open>C6: 
  Interleaving: when a user writes in one chat only, the state the bot keeps for that
  user after any interleaving of updates from all chats and users is the state the
  single-user conversation reaches on that user's updates alone.
\<close>

theorem polling_user_isolation:
  "\<forall>m\<in>set ms. in_user m = user \<longrightarrow> in_chat m = chat \<Longrightarrow>
   user_view (fst (run_polling rt a ms)) chat user
   = fst (conv_run rt (user_view a chat user) (user_updates user ms))"
proof (induction ms arbitrary: a)
  case Nil
  then show ?case by (simp add: user_updates_def)
next
  case (Cons m ms)
  obtain chat' user' u where m: "m = Incoming chat' user' u" by (cases m)
  show ?case
  proof (cases "user' = user")
    case True
    with Cons.prems m have "chat' = chat" by simp
    have "user_updates user (m # ms) = u # user_updates user ms"
      using True m by (simp add: user_updates_def)
    with True m \<open>chat' = chat\<close> show ?thesis using Cons
      by (simp only: run_polling_Cons conv_run_Cons fst_conv) (simp add: user_view_app_step_same)
  next
    case False
    have "user_updates user (m # ms) = user_updates user ms"
      using False m by (simp add: user_updates_def)
    with False m show ?thesis using Cons
      by (simp only: run_polling_Cons fst_conv) (simp add: user_view_app_step_other)
  qed
qed

text \<open>C19: 
  In a private chat (the chat where exactly this user writes) the bot's messages are
  the replies of the single-user conversation on that user's updates, in order, however
  other chats interleave.
\<close>

theorem private_chat_transcript:
  "\<forall>m\<in>set ms. in_user m = user \<longleftrightarrow> in_chat m = chat \<Longrightarrow>
   chat_transcript chat (snd (run_polling rt a ms))
   = snd (conv_run rt (user_view a chat user) (user_updates user ms))"
proof (induction ms arbitrary: a)
  case Nil
  then show ?case by (simp add: user_updates_def chat_transcript_def)
next
  case (Cons m ms)
  obtain chat' user' u where m: "m = Incoming chat' user' u" by (cases m)
  have tr_app: "chat_transcript chat (xs @ ys) = chat_transcript chat xs @ chat_transcript chat ys" for xs ys
    by (simp add: chat_transcript_def)
  show ?case
  proof (cases "user' = user")
    case True
    with Cons.prems m have "chat' = chat" by simp
    have "user_updates user (m # ms) = u # user_updates user ms"
      using True m by (simp add: user_updates_def)
    with True m \<open>chat' = chat\<close> show ?thesis using Cons
      by (simp only: run_polling_Cons conv_run_Cons snd_conv tr_app)
         (simp add: user_view_app_step_same snd_app_step chat_transcript_def comp_def)
  next
    case False
    with Cons.prems m have "chat' \<noteq> chat" by simp
    have "user_updates user (m # ms) = user_updates user ms"
      using False m by (simp add: user_updates_def)
    with False m \<open>chat' \<noteq> chat\<close> show ?thesis using Cons
      by (simp only: run_polling_Cons snd_conv tr_app)
         (simp add: user_view_app_step_other snd_app_step chat_transcript_def comp_def)
  qed
qed

text \<open>C14: 
  Invariant of the whole bot: in every reachable application state, every conversation
  of every chat and user waiting for question k has the answers to questions 1..k-1 in
  its user's data, although other chats of the same user write to that data too.
\<close>

theorem app_reachable_answers_recorded:
  "app_reachable rt a \<Longrightarrow> answers_recorded (user_view a chat user)"
proof (induction rule: app_reachable.induct)
  case init
  show ?case by (simp add: answers_recorded_def initial_app_state_def user_view_def)
next
  case (step a m)
  obtain chat' user' u where m: "m = Incoming chat' user' u" by (cases m)
  consider "user' = user" "chat' = chat" | "user' \<noteq> user" | "user' = user" "chat' \<noteq> chat" by blast
  then show ?case
  proof cases
    case 1
    then show ?thesis using step.IH by (simp add: m user_view_app_step_same answers_recorded_step)
  next
    case 2
    then show ?thesis using step.IH by (simp add: m user_view_app_step_other)
  next
    case 3
    have "answers_kept (user_data (user_view a chat user))
        (user_data (fst (conv_handler_step rt (user_view a chat' user) u)))"
      using conv_step_answers_kept[of "user_view a chat' user" rt u] by (simp add: user_view_def)
    then show ?thesis using 3 step.IH by (simp add: m user_view_app_step_chat answers_recorded_kept)
  qed
qed

theorem app_reachable_answers_recorded_witness:
  "answers_recorded (user_view (fst (app_step example_runtime initial_app_state (Incoming 5 7 (Command ''start'')))) 5 7)"
  by (rule app_reachable_answers_recorded) (rule app_reachable.step[OF app_reachable.init])

text \<open>C21: 
  When the corpus is neither installed nor downloadable, the script's bot never sends the
  keyword reply, in any chat, for any sequence of updates.
\<close>

theorem script_entry_no_corpus:
  "\<not> installed \<Longrightarrow> \<not> network_ok \<Longrightarrow> (c, r) \<in> set (script_entry wn installed network_ok rt updates) \<Longrightarrow>
   \<not> py_startswith r ''Generated Keywords''"
  unfolding script_entry_def bot_main_def nltk_download_def
  by (auto dest!: run_polling_replies conv_step_no_keyword_reply[rotated])

theorem script_entry_no_corpus_witness:
  "\<not> py_startswith (last (map snd (script_entry bakery_wordnet False False example_runtime shared_user)))
     ''Generated Keywords''"
proof -
  have ne: "script_entry bakery_wordnet False False example_runtime shared_user \<noteq> []"
    by (simp add: script_entry_def nltk_download_def bot_main_def shared_user_def app_step_def
        user_view_def initial_app_state_def conv_handler_step_def handler_simps location_eq)
  then have "last (script_entry bakery_wordnet False False example_runtime shared_user)
      \<in> set (script_entry bakery_wordnet False False example_runtime shared_user)" by simp
  then show ?thesis
    using script_entry_no_corpus[where installed = False and network_ok = False and wn = bakery_wordnet
        and rt = example_runtime and updates = shared_user
        and c = "fst (last (script_entry bakery_wordnet False False example_runtime shared_user))"
        and r = "snd (last (script_entry bakery_wordnet False False example_runtime shared_user))"]
    by (simp add: last_map[OF ne])
qed

theorem polling_user_isolation_witness:
  "user_view (fst (run_polling example_runtime initial_app_state two_users)) 1 1
   = fst (conv_run example_runtime (user_view initial_app_state 1 1) (user_updates 1 two_users))"
  by (rule polling_user_isolation) (simp add: two_users_def)

theorem private_chat_transcript_witness:
  "chat_transcript 1 (snd (run_polling example_runtime initial_app_state two_users))
   = snd (conv_run example_runtime (user_view initial_app_state 1 1) (user_updates 1 two_users))"
  by (rule private_chat_transcript) (simp add: two_users_def)

text \<open>C20: 
  User data is shared across chats: when a user answers the industry question in one
  chat, each of that user's conversations in other chats stays at its question but now
  holds this industry, overwriting the answer given there. Conversations are kept per
  (chat, user), answers per user.
\<close>

theorem shared_user_data_across_chats:
  "chat' \<noteq> chat \<Longrightarrow> app_conversations a (chat', user) = Some INDUSTRY \<Longrightarrow>
   user_view (fst (app_step rt a (Incoming chat' user (Text_message t)))) chat user
   = \<lparr>conversation = app_conversations a (chat, user),
      user_data = (app_user_data a user)\<lparr>ud_industry := Some t\<rparr>\<rparr>"
  by (simp add: user_view_app_step_chat) (simp add: user_view_def conv_handler_step_def handler_simps)

theorem shared_user_data_across_chats_witness:
  "user_view (fst (app_step example_runtime (fst (run_polling example_runtime initial_app_state (take 3 shared_user)))
      (Incoming 20 1 (Text_message ''florist'')))) 10 1
   = \<lparr>conversation = app_conversations (fst (run_polling example_runtime initial_app_state (take 3 shared_user))) (10, 1),
      user_data = (app_user_data (fst (run_polling example_runtime initial_app_state (take 3 shared_user))) 1)
        \<lparr>ud_industry := Some ''florist''\<rparr>\<rparr>"
  by (rule shared_user_data_across_chats)
     (simp_all add: shared_user_def app_step_def user_view_def initial_app_state_def conv_handler_step_def
      handler_simps)

end
