(* ===== verification/Stderr.thy ===== *)
theory Stderr
  imports Polling
begin

text \<open>
  The ERROR records the running bot writes to standard error. Two places write them:
  \<^item> the filter's \<open>logger.error\<close> (line 43) when the fetch fails, inside the
    \<open>location\<close> handler (\<open>location_logged\<close>);
  \<^item> python-telegram-bot's application when a callback raises: no error handler is
    registered (\<open>main\<close> adds none), so \<open>Application.process_error\<close> logs the
    exception on the logger \<open>telegram.ext.Application\<close> with its traceback; the
    record reaches the root handler of \<open>basicConfig\<close> (lines 10-12). The traceback
    text is the runtime parameter \<open>rt_traceback\<close>.
  Under \<open>level=INFO\<close> the same stream also receives INFO records of the libraries:
  httpx logs every request the bot makes to Telegram (each \<open>getUpdates\<close> poll and
  each \<open>sendMessage\<close> of a \<open>reply_text\<close>) and the application logs its start.
  Those are not modelled (their number depends on the polling timing); the definitions
  here are the ERROR records only: \<open>conv_handler_errors\<close> those of one dispatch,
  \<open>run_polling_errors\<close> those of a whole run of the polling loop, \<open>bot_error_log\<close>
  those of \<open>main\<close>.
\<close>

definition state_handler_errors :: "('s, 'l) runtime \<Rightarrow> conv_state \<Rightarrow> user_data \<Rightarrow> py_str \<Rightarrow> py_str" where
  "state_handler_errors rt st ud text = (case st of LOCATION \<Rightarrow> snd (location_logged rt ud text) | _ \<Rightarrow> [])"

definition ptb_logger_name :: py_str where
  "ptb_logger_name = ''telegram.ext.Application''"

definition app_error_report :: "('s, 'l) runtime \<Rightarrow> handler_outcome \<Rightarrow> py_str" where
  "app_error_report rt r =
     (case r of
        Inl (e, ud) \<Rightarrow>
          log_emit_exception ptb_logger_name (rt_clock rt)
            ''No error handlers are registered, logging exception.'' (rt_traceback rt e)
      | Inr res \<Rightarrow> [])"

definition conv_handler_errors :: "('s, 'l) runtime \<Rightarrow> bot_state \<Rightarrow> update \<Rightarrow> py_str" where
  "conv_handler_errors rt s u =
     (case conversation s of
        None \<Rightarrow> []
      | Some st \<Rightarrow>
          (case u of
             Text_message text \<Rightarrow>
               state_handler_errors rt st (user_data s) text
               @ app_error_report rt (state_handler rt st (user_data s) text)
           | _ \<Rightarrow> []))"

fun run_polling_errors :: "('s, 'l) runtime \<Rightarrow> app_state \<Rightarrow> incoming list \<Rightarrow> py_str" where
  "run_polling_errors rt a [] = []"
| "run_polling_errors rt a (m # ms) =
     (case m of Incoming chat user u \<Rightarrow> conv_handler_errors rt (user_view a chat user) u)
     @ run_polling_errors rt (fst (app_step rt a m)) ms"

definition bot_error_log :: "('s, 'l) runtime \<Rightarrow> incoming list \<Rightarrow> py_str" where
  "bot_error_log rt updates = run_polling_errors rt initial_app_state updates"

lemma location_logged_log:
  "snd (location_logged rt ud text) =
     (case rt_wordnet rt of
        None \<Rightarrow> []
      | Some wn \<Rightarrow>
          if website_truthy (get_website (ud_website ud))
          then snd (fetch_keywords_logged (requests_get (rt_transport rt)) (rt_exc_str rt) (rt_clock rt)
                 (the (get_website (ud_website ud)))
                 (generate_related_keywords wn (rt_set_slot rt) [get_str (ud_industry ud), get_str (ud_objective ud)]))
          else [])"
  by (cases "website_truthy (get_website (ud_website ud))")
     (simp_all add: location_logged_def generate_with_corpus_def Let_def prod.case_eq_if split: option.splits)


text \<open>C12: 
  Without the WordNet corpus, each answer to the LOCATION question makes the application
  report the escaped LookupError: one ERROR record of telegram.ext.Application saying
  that no error handlers are registered, followed by the traceback.
\<close>

theorem location_missing_corpus_stderr:
  "rt_wordnet rt = None \<Longrightarrow> conversation s = Some LOCATION \<Longrightarrow>
   conv_handler_errors rt s (Text_message t)
   = rt_clock rt @ '' - telegram.ext.Application - ERROR - No error handlers are registered, logging exception.''
     @ [CHR 0x0A] @ rt_traceback rt LookupError @ [CHR 0x0A]"
  by (simp add: conv_handler_errors_def state_handler_errors_def state_handler_def app_error_report_def
      location_logged_log location_eq log_emit_eval ptb_logger_name_def)

text \<open>C9: 
  Composition of the dialogue, the filter, requests and the logging set-up: with the
  corpus present, the ERROR records a complete private-chat dialogue writes are exactly
  the filter's log for the website answer: none when that answer does not start with
  http or when its fetch succeeds.
\<close>

theorem private_dialogue_errors:
  "rt_wordnet rt = Some wn \<Longrightarrow>
   bot_error_log rt (map (Incoming chat user)
     [Command ''start'', Text_message ind, Text_message obj, Text_message url,
      Text_message soc, Text_message ppc, Text_message aud, Text_message loc])
   = (if py_startswith url ''http''
      then snd (fetch_keywords_logged (requests_get (rt_transport rt)) (rt_exc_str rt) (rt_clock rt) url
                 (generate_related_keywords wn (rt_set_slot rt) [ind, obj]))
      else [])"
  by (auto simp: bot_error_log_def initial_app_state_def app_step_def user_view_def conv_handler_step_def
      conv_handler_errors_def handler_simps state_handler_errors_def app_error_report_def location_logged_log
      location_eq get_str_def get_website_def website_truthy_def py_startswith_nonempty)


theorem location_missing_corpus_stderr_witness:
  "conv_handler_errors (example_runtime\<lparr>rt_wordnet := None\<rparr>)
     \<lparr>conversation = Some LOCATION, user_data = empty_user_data\<rparr> (Text_message ''Berlin'')
   = ''2026-01-01 00:00:00,000'' @ '' - telegram.ext.Application - ERROR - No error handlers are registered, logging exception.''
     @ [CHR 0x0A] @ ''Traceback'' @ [CHR 0x0A]"
  using location_missing_corpus_stderr[where rt = "example_runtime\<lparr>rt_wordnet := None\<rparr>"
      and s = "\<lparr>conversation = Some LOCATION, user_data = empty_user_data\<rparr>" and t = "''Berlin''"]
  by (simp add: example_runtime_def)

theorem private_dialogue_errors_witness:
  "bot_error_log example_runtime (map (Incoming 1 1)
     [Command ''start'', Text_message ''bakery'', Text_message ''sales'', Text_message ''http://down.example'',
      Text_message ''none'', Text_message ''no'', Text_message ''locals'', Text_message ''Berlin''])
   = ''2026-01-01 00:00:00,000 - __main__ - ERROR - Error parsing URL: error'' @ [CHR 0x0A]"
proof -
  have "bot_error_log example_runtime (map (Incoming 1 1)
     [Command ''start'', Text_message ''bakery'', Text_message ''sales'', Text_message ''http://down.example'',
      Text_message ''none'', Text_message ''no'', Text_message ''locals'', Text_message ''Berlin''])
   = (if py_startswith ''http://down.example'' ''http''
      then snd (fetch_keywords_logged (requests_get (rt_transport example_runtime)) (rt_exc_str example_runtime)
                 (rt_clock example_runtime) ''http://down.example''
                 (generate_related_keywords bakery_wordnet (rt_set_slot example_runtime) [''bakery'', ''sales'']))
      else [])"
    by (rule private_dialogue_errors) (simp add: example_runtime_def)
  then show ?thesis
    by (simp add: py_startswith_def example_runtime_def fetch_keywords_logged_def fetch_keywords_body_def
        requests_get_bakery_site logger_error_line)
qed

end
