(* ===== verification/Spec2Isabelle.thy ===== *)
theory Spec2Isabelle
  imports Stderr
begin

text \<open>
  Verification development for the Relevant-Keyword-Bot, a Telegram bot in one file,
  \<open>src/teleBot.py\<close>. The bot asks a user seven questions, expands the industry and
  objective answers into WordNet synonyms and keeps those that occur as whole words on
  the user's website.

  \<^bold>\<open>Parts of the program and how they interact.\<close> The conversation handlers
  (\<open>start\<close> .. \<open>location\<close>, \<open>cancel\<close>) are dispatched by a \<open>ConversationHandler\<close>
  built in \<open>main\<close>; the last handler, \<open>location\<close>, calls the keyword expander
  \<open>generate_related_keywords\<close> on the industry and objective, and the relevance filter
  \<open>fetch_keywords_from_url\<close> on its result and the stored website. The expander calls
  WordNet; the filter calls \<open>requests\<close>, BeautifulSoup, \<open>str.lower\<close> and
  \<open>re.findall\<close>. Everything is single-threaded: one update is handled at a time.

  \<^bold>\<open>Theories.\<close>
  \<^item> \<open>Prelude\<close>: named theorem collections, the type \<open>py_str\<close>, and generic lemmas
    on maximal runs (\<open>takeWhile\<close>/\<open>dropWhile\<close>), list decompositions and code points.
  \<^item> \<open>Text\<close>: Python's \<open>\w\<close> class (\<open>py_is_word_char\<close>), \<open>str.lower\<close>
    (\<open>py_lower\<close>), \<open>str.strip\<close>, \<open>str.join\<close>, \<open>str.startswith\<close>, and the scan
    \<open>re.findall(r'\b\w+\b', s)\<close> (\<open>re_findall_words\<close>, \<open>findall_words\<close>, line 40).
    Lemmas: the scan returns exactly the maximal runs of word characters
    (\<open>findall_words_iff\<close>), lowercasing and stripping commute with it, it splits at
    any non-word separator, joining tokens with a separator round-trips, and the
    scan yields at most (n + 1) div 2 tokens; \<open>str.split\<close> (\<open>py_split_sep\<close>) undoes
    \<open>str.join\<close> on comma-free pieces.
  \<^item> \<open>Soup\<close>: the library behaviour the filter relies on, modelled from the libraries'
    documentation: \<open>requests.get\<close>'s URL checks before the network transport
    (\<open>requests_get\<close>: \<open>MissingSchema\<close>, \<open>InvalidURL\<close>, \<open>InvalidSchema\<close>),
    \<open>raise_for_status\<close> (error iff status 400..599) and
    \<open>get_text(separator, strip=True)\<close> over a parsed tree of text nodes, comments and
    elements (script, style and template contents excluded).
  \<^item> \<open>Logging\<close>: the configuration of lines 9-13 (\<open>basic_config_format\<close>,
    \<open>basic_config_level\<close>, \<open>logger_name\<close>) over the library's level check, its
    \<open>%\<close>-formatter \<open>percent_format\<close> (a \<open>function\<close> with a length measure) and
    the stream handler \<open>log_emit\<close>; \<open>logger_error\<close> is the call of line 43.
    Lemma: which levels are written and the exact line written.
  \<^item> \<open>Relevance\<close>: \<open>fetch_keywords_from_url\<close> (lines 31-44): the \<open>try\<close> body as
    \<open>fetch_keywords_body\<close> with exceptions as \<open>Inl\<close>, the handler mapping them to
    \<open>[]\<close>; \<open>fetch_keywords_logged\<close> is the same function with the text it writes
    to standard error. Lemmas: the relevance characterization, errors give \<open>[]\<close> and
    exactly one log line each (success none), URLs that pass the bot's http check but
    not requests' are rejected before any connection, the request carries the
    User-Agent of lines 32-34, and the tokens of the visible text are those of the
    page's text nodes (words never fuse across elements).
  \<^item> \<open>Expander\<close>: \<open>generate_related_keywords\<close> (lines 22-28) over a WordNet interface
    (the record \<open>wordnet\<close> of \<open>synsets\<close>, \<open>synset_lemmas\<close>, \<open>lemma_name\<close>):
    the three loops as primitive recursions over the Python set, modelled as a
    duplicate-free list; \<open>list(set)\<close> is \<open>sort_key slot\<close> for an arbitrary slot
    function; \<open>generate_with_corpus\<close> adds nltk's lazy loader, which raises
    \<open>LookupError\<close> when the corpus is missing. Lemmas: refinement of the set
    contract \<open>related_spec\<close>, no duplicates, independence of seed order, unmatched and
    repeated seeds, and at most one keyword per lemma occurrence.
  \<^item> \<open>Dialogue\<close>: the states (lines 15-19), \<open>context.user_data\<close> as the record
    \<open>user_data\<close>, one definition per handler (lines 47-114), the dispatcher
    \<open>conv_handler_step\<close> (lines 119-131) and the update loop \<open>conv_run\<close>. Lemmas:
    the end-to-end run of a whole conversation, the invariant \<open>answers_recorded\<close> on
    all \<open>reachable\<close> states (rule induction), state progression and termination
    (exactly \<open>7 - k\<close> answers end a conversation at question \<open>k\<close>), at most one
    reply per update, \<open>/cancel\<close> and the ignored updates; a handler that raises
    (\<open>location\<close> without the corpus) keeps the state, after storing the location;
    the keyword list can be parsed back from the final reply.
  \<^item> \<open>Polling\<close>: \<open>main\<close> (lines 116-135) as \<open>bot_main\<close>, the loop \<open>run_polling\<close>
    over updates from many chats and users, and \<open>app_step\<close>, the library's dispatch
    keeping one conversation state per (chat, user) and one \<open>user_data\<close> per user.
    Lemmas: a user writing in one chat sees exactly the single-user conversation on
    their own updates, whatever the interleaving (state and, in a private chat, the
    transcript); the answers invariant holds for every conversation of every reachable
    application state (rule induction on \<open>app_reachable\<close>); an industry answer in
    one chat overwrites the industry of the same user's conversations in other chats. The script entry (lines 137-140,
    \<open>script_entry\<close>) downloads the corpus first; when that fails and the corpus is
    not installed, no keyword reply is ever sent.
  \<^item> \<open>Stderr\<close>: the ERROR records the running bot writes to standard error:
    \<open>conv_handler_errors\<close> per dispatch (the filter's log line inside
    \<open>location_logged\<close>, and the application's report when a callback raises,
    \<open>app_error_report\<close>), and \<open>run_polling_errors\<close>/\<open>bot_error_log\<close> for a whole
    run. Lemmas: only an answer to the last question writes ERROR records; a complete
    private dialogue writes exactly the filter's log for its website; without the corpus
    each last answer writes the report. The INFO records of the same stream (httpx's
    line per Telegram request, the application's start message) are not modelled.
  \<^item> This theory: a failing fetch still ends the dialogue with the reply that no
    relevant keywords were found.

  \<^bold>\<open>Bounds and modelling choices.\<close> Characters are the code points 0..255 of a Python
  \<open>str\<close>. On that range the \<open>\w\<close> class, \<open>str.lower\<close> and \<open>str.isspace\<close> follow
  Python 3 exactly, including the Latin-1 letters. Code points above 255 are outside
  the model. Every function is total: the regex scan and the \<open>%\<close>-formatter are
  \<open>function\<close>s whose termination measure is the length of the remaining text, and
  a conversation ends after at most seven answers. The set iteration order
  and the HTTP client are parameters, so each theorem holds for every order and every
  server response. No loop needs fuel. Log records carry one time stamp per runtime:
  the clock is not modelled, so the order of the records, not their times, is what the
  standard-error theorems describe.

  \<^bold>\<open>Not modelled.\<close> The imports (lines 1-8); the Telegram transport, the bot token
  and \<open>run_polling\<close>'s networking; what \<open>nltk.download\<close> transfers (only whether the
  corpus is present afterwards); WordNet's contents and morphology (an interface here);
  HTML parsing of the response body (a response carries its parsed tree); the network
  behind \<open>requests\<close> and its timing (there is no timeout); the clock of the log
  records, the text of \<open>str(e)\<close> (parameters) and the traceback the application logs
  for a handler exception; the INFO records \<open>basicConfig(level=INFO)\<close> lets through
  from httpx (one per \<open>getUpdates\<close> poll and per \<open>sendMessage\<close>) and from the
  application (its start), whose number depends on the timing of the polling.

  \<^bold>\<open>Plan for further work.\<close> Messages with entities beyond a leading command;
  HTML parsing of response bodies; the INFO records of the Telegram requests.
\<close>

text \<open>C15: 
  Failure degrades to a normal final reply: when the user gives a URL starting with http
  and fetching it raises or returns an HTTP error status, the conversation still ends
  with the keyword reply, which reports that no relevant keywords were found.
\<close>

theorem dialogue_fetch_failure:
  "conversation s = None \<Longrightarrow> rt_wordnet rt \<noteq> None \<Longrightarrow> py_startswith url ''http'' \<Longrightarrow>
   requests_get (rt_transport rt) url request_headers = Inl e \<or>
     (requests_get (rt_transport rt) url request_headers = Inr r \<and> 400 \<le> status_code r \<and> status_code r < 600) \<Longrightarrow>
   last (snd (conv_run rt s [Command ''start'', Text_message ind, Text_message obj, Text_message url,
                  Text_message soc, Text_message ppc, Text_message aud, Text_message loc]))
   = ''Generated Keywords based on inputs:'' @ newline @ ''Industry: '' @ ind @ newline @
     ''Objective: '' @ obj @ newline @ ''Relevant Keywords: No relevant keywords found.''"
  by (auto simp: conv_handler_step_def handler_simps location_eq get_str_def get_website_def
      website_truthy_def py_startswith_nonempty fetch_keywords_from_url_cases raise_for_status_def
      location_reply_def split: option.splits)

theorem dialogue_fetch_failure_witness:
  "last (snd (conv_run example_runtime initial_bot_state
     [Command ''start'', Text_message ''bakery'', Text_message ''sales'', Text_message ''http://down.example'',
      Text_message ''none'', Text_message ''no'', Text_message ''locals'', Text_message ''Berlin'']))
   = ''Generated Keywords based on inputs:'' @ newline @ ''Industry: '' @ ''bakery'' @ newline @
     ''Objective: '' @ ''sales'' @ newline @ ''Relevant Keywords: No relevant keywords found.''"
  by (rule dialogue_fetch_failure[where e = RequestException and r = bakery_page])
     (simp_all add: initial_bot_state_def py_startswith_def example_runtime_def requests_get_bakery_site)

end
